theory Spec2Isabelle
  imports Main
begin


section \<open>Configuration (core/config)\<close>

text \<open>
  The four enumerations of \<^verbatim>\<open>core/config/enums.py\<close>. The embedding provider
  \<^verbatim>\<open>OLLAMA\<close> is written \<open>EMB_OLLAMA\<close>, since a constructor name is global.
\<close>

datatype ModelProvider = OPENAI | ANTHROPIC | GROQ | OLLAMA

datatype EmbeddingProvider = EMB_HUGGINGFACE | EMB_OLLAMA

datatype AnswerMode = DEFAULT | RAG | WEB_SEARCH

datatype MemoryMode = TRANSIENT | PERSISTENT

text \<open>
  \<^verbatim>\<open>AppConfig\<close> and \<^verbatim>\<open>ModelConfig\<close>: class attributes read once at import.
  The keys come from \<^verbatim>\<open>os.getenv\<close>, which gives \<^verbatim>\<open>None\<close> or a string.
\<close>

record AppConfig =
  MEMORY_MESSAGE_LIMIT :: int
  ENABLE_PRIVACY_FILTER :: bool
  TAVILY_API_KEY :: "string option"

record ModelConfig =
  OPENAI_API_KEY :: "string option"
  ANTHROPIC_API_KEY :: "string option"
  GROQ_API_KEY :: "string option"

text \<open>The values \<^verbatim>\<open>app_config.py\<close> fixes; the key is the environment's.\<close>

definition AppConfig_src :: "string option \<Rightarrow> AppConfig" where
  "AppConfig_src tavily =
     \<lparr>MEMORY_MESSAGE_LIMIT = 10, ENABLE_PRIVACY_FILTER = True, TAVILY_API_KEY = tavily\<rparr>"

text \<open>Python truthiness of an optional string: \<^verbatim>\<open>None\<close> and \<^verbatim>\<open>""\<close> are false.\<close>

fun truthy :: "string option \<Rightarrow> bool" where
  "truthy None = False"
| "truthy (Some s) = (s \<noteq> [])"

section \<open>Python lists and strings\<close>

text \<open>
  \<^verbatim>\<open>xs[k:]\<close> for an integer \<open>k\<close>: a negative start counts from the end and is
  clamped at the front, so \<^verbatim>\<open>xs[-0:]\<close> is the whole list.
\<close>

definition slice_from :: "int \<Rightarrow> 'a list \<Rightarrow> 'a list" where
  "slice_from k xs =
     (if k < 0 then drop (nat (int (length xs) + k)) xs else drop (nat k) xs)"

text \<open>\<^verbatim>\<open>xs[:k]\<close>, with the same reading of a negative bound.\<close>

definition slice_to :: "int \<Rightarrow> 'a list \<Rightarrow> 'a list" where
  "slice_to k xs =
     (if k < 0 then take (nat (int (length xs) + k)) xs else take (nat k) xs)"

text \<open>
  Text is a list of code points below 256. \<^verbatim>\<open>str.isspace\<close> on that range, which is
  also what \<^verbatim>\<open>str.strip()\<close> removes.
\<close>

definition isspace :: "char \<Rightarrow> bool" where
  "isspace c = (let n = (of_char c :: nat) in
     (9 \<le> n \<and> n \<le> 13) \<or> (28 \<le> n \<and> n \<le> 32) \<or> n = 133 \<or> n = 160)"

definition strip :: "string \<Rightarrow> string" where
  "strip s = rev (dropWhile isspace (rev (dropWhile isspace s)))"

definition newline :: char where
  "newline = CHR 0x0A"

section \<open>Memory manager (core/memory/memory\_manager.py)\<close>

text \<open>
  A message of the transient buffer is a LangChain \<^verbatim>\<open>HumanMessage\<close> or
  \<^verbatim>\<open>AIMessage\<close>; a message of a session file is a JSON object with its role as
  a string.
\<close>

datatype message = HumanMessage string | AIMessage string

record stored_message =
  sm_role :: string
  sm_content :: string
  sm_timestamp :: string

record session_data =
  sd_session_id :: string
  created_at :: string
  updated_at :: string
  title :: string
  messages :: "stored_message list"

text \<open>
  A session file holds the JSON that \<^verbatim>\<open>_update_session_metadata\<close> dumped, or
  something on which \<^verbatim>\<open>json.load\<close> or the lookup of \<^verbatim>\<open>"messages"\<close> raises.
  Files are keyed by session id, as their paths are.
\<close>

datatype session_file = Unreadable | Json session_data

text \<open>A document of the Chroma collection \<^verbatim>\<open>chat_history\<close>.\<close>

record memory_doc =
  page_content :: string
  md_role :: string
  md_timestamp :: string
  md_session_id :: string

datatype exn = ValueError string | AttributeError string | KeyError string
  | ConnectionError string | BackendError string

fun str_of_exn :: "exn \<Rightarrow> string" where
  "str_of_exn (ValueError m) = m"
| "str_of_exn (AttributeError m) = m"
| "str_of_exn (KeyError m) = m"
| "str_of_exn (ConnectionError m) = m"
| "str_of_exn (BackendError m) = m"

datatype embeddings = HuggingFaceEmbeddings | OllamaEmbeddings | FallbackEmbeddings

text \<open>
  What the memory manager asks of the outside: the configuration, the clock, the
  identifier generator and the Chroma client, each of which may raise.
\<close>

record memory_env =
  app_config :: AppConfig
  now_isoformat :: string
  uuid4 :: string
  new_Chroma_memory :: "exn option"
  chroma_add_documents :: "memory_doc \<Rightarrow> exn option"

text \<open>
  The manager's fields, with the session directory and the Chroma collection it
  writes. \<open>has_persistent_memory\<close> is \<^verbatim>\<open>hasattr(self, 'persistent_memory')\<close>.
\<close>

record MemoryManager =
  memory_mode :: MemoryMode
  transient_memory :: "message list"
  embedding_function :: "embeddings option"
  has_persistent_memory :: bool
  session_files :: "string \<rightharpoonup> session_file"
  chat_history_collection :: "memory_doc list"

text \<open>
  \<^verbatim>\<open>_init_persistent_memory\<close>: a missing embedding function, \<^verbatim>\<open>os.makedirs\<close> and
  the Chroma constructor raise into the one handler, which falls back to TRANSIENT.
\<close>

definition init_persistent_memory :: "'e memory_env_scheme \<Rightarrow> MemoryManager \<Rightarrow> MemoryManager" where
  "init_persistent_memory env mm =
     (case (if embedding_function mm = None
            then Some (ValueError ''Embedding function is required for persistent memory'')
            else new_Chroma_memory env) of
        None \<Rightarrow> mm\<lparr>has_persistent_memory := True\<rparr>
      | Some e \<Rightarrow> mm\<lparr>memory_mode := TRANSIENT\<rparr>)"

text \<open>
  \<^verbatim>\<open>change_memory_mode\<close>: nothing in its \<^verbatim>\<open>try\<close> block raises
  (\<^verbatim>\<open>_init_persistent_memory\<close> catches its own exceptions), so the result is
  always \<^verbatim>\<open>True\<close>.
\<close>

definition mm_change_memory_mode ::
  "'e memory_env_scheme \<Rightarrow> MemoryManager \<Rightarrow> MemoryMode \<Rightarrow> bool \<times> MemoryManager" where
  "mm_change_memory_mode env mm m =
     (if m = memory_mode mm then (True, mm)
      else
        let mm1 = mm\<lparr>memory_mode := m\<rparr>;
            mm2 = (if m = PERSISTENT \<and> \<not> has_persistent_memory mm1
                   then init_persistent_memory env mm1 else mm1)
        in (True, mm2))"

text \<open>
  \<^verbatim>\<open>__init__\<close>, given the session directory and the collection found on disk.
\<close>

definition new_MemoryManager ::
  "'e memory_env_scheme \<Rightarrow> MemoryMode \<Rightarrow> embeddings option \<Rightarrow>
   (string \<rightharpoonup> session_file) \<Rightarrow> memory_doc list \<Rightarrow> MemoryManager" where
  "new_MemoryManager env m emb files docs =
     (let mm = \<lparr>memory_mode = m, transient_memory = [], embedding_function = emb,
                 has_persistent_memory = False, session_files = files,
                 chat_history_collection = docs\<rparr>
      in if memory_mode mm = PERSISTENT then init_persistent_memory env mm else mm)"

definition extract_title :: "string \<Rightarrow> string" where
  "extract_title content =
     (let t = takeWhile (\<lambda>c. c \<noteq> newline) (strip content)
      in if length t > 30 then take 27 t @ ''...'' else t)"

definition update_session_metadata ::
  "MemoryManager \<Rightarrow> string \<Rightarrow> string \<Rightarrow> string \<Rightarrow> string \<Rightarrow> MemoryManager" where
  "update_session_metadata mm session_id role content timestamp =
     (case (case session_files mm session_id of
              Some Unreadable \<Rightarrow> None
            | Some (Json d) \<Rightarrow> Some d
            | None \<Rightarrow> Some \<lparr>sd_session_id = session_id, created_at = timestamp,
                              updated_at = timestamp,
                              title = (if role = ''user'' then extract_title content
                                       else ''New Chat''),
                              messages = []\<rparr>) of
        None \<Rightarrow> mm
      | Some d \<Rightarrow>
          let d1 = d\<lparr>updated_at := timestamp\<rparr>;
              d2 = d1\<lparr>messages := messages d1 @
                     [\<lparr>sm_role = role, sm_content = content, sm_timestamp = timestamp\<rparr>]\<rparr>;
              d3 = (if length (messages d2) = 1 \<and> role = ''user''
                    then d2\<lparr>title := extract_title content\<rparr> else d2)
          in mm\<lparr>session_files := (session_files mm)(session_id \<mapsto> Json d3)\<rparr>)"

text \<open>
  \<^verbatim>\<open>_add_to_persistent_memory\<close>: the whole body is one \<^verbatim>\<open>try\<close>; a missing
  \<^verbatim>\<open>persistent_memory\<close> attribute or a failing \<^verbatim>\<open>add_documents\<close> skips the
  session file.
\<close>

definition add_to_persistent_memory ::
  "'e memory_env_scheme \<Rightarrow> MemoryManager \<Rightarrow> string \<Rightarrow> string \<Rightarrow> string \<Rightarrow> MemoryManager" where
  "add_to_persistent_memory env mm role content session_id =
     (let timestamp = now_isoformat env;
          doc = \<lparr>page_content = content, md_role = role, md_timestamp = timestamp,
                 md_session_id = session_id\<rparr>
      in case (if \<not> has_persistent_memory mm
               then Some (AttributeError ''persistent_memory'')
               else chroma_add_documents env doc) of
           Some e \<Rightarrow> mm
         | None \<Rightarrow>
             update_session_metadata
               (mm\<lparr>chat_history_collection := chat_history_collection mm @ [doc]\<rparr>)
               session_id role content timestamp)"

definition trim_transient_memory :: "'e memory_env_scheme \<Rightarrow> MemoryManager \<Rightarrow> MemoryManager" where
  "trim_transient_memory env mm =
     (let msgs = transient_memory mm; n = MEMORY_MESSAGE_LIMIT (app_config env)
      in if int (length msgs) > n
         then mm\<lparr>transient_memory := slice_from (- n) msgs\<rparr> else mm)"

definition add_user_message ::
  "'e memory_env_scheme \<Rightarrow> MemoryManager \<Rightarrow> string \<Rightarrow> string option \<Rightarrow> MemoryManager" where
  "add_user_message env mm msg session_id =
     (let mm1 = mm\<lparr>transient_memory := transient_memory mm @ [HumanMessage msg]\<rparr>;
          mm2 = trim_transient_memory env mm1
      in case session_id of
           None \<Rightarrow> mm2
         | Some sid \<Rightarrow>
             if memory_mode mm2 = PERSISTENT \<and> truthy session_id
             then add_to_persistent_memory env mm2 ''user'' msg sid else mm2)"

definition add_ai_message ::
  "'e memory_env_scheme \<Rightarrow> MemoryManager \<Rightarrow> string \<Rightarrow> string option \<Rightarrow> MemoryManager" where
  "add_ai_message env mm msg session_id =
     (let mm1 = mm\<lparr>transient_memory := transient_memory mm @ [AIMessage msg]\<rparr>;
          mm2 = trim_transient_memory env mm1
      in case session_id of
           None \<Rightarrow> mm2
         | Some sid \<Rightarrow>
             if memory_mode mm2 = PERSISTENT \<and> truthy session_id
             then add_to_persistent_memory env mm2 ''assistant'' msg sid else mm2)"

definition get_chat_history :: "MemoryManager \<Rightarrow> message list" where
  "get_chat_history mm = transient_memory mm"

text \<open>The loop of \<^verbatim>\<open>load_session\<close> over the stored messages.\<close>

definition replay_message :: "stored_message \<Rightarrow> message" where
  "replay_message m =
     (if sm_role m = ''user'' then HumanMessage (sm_content m) else AIMessage (sm_content m))"

definition mm_load_session ::
  "'e memory_env_scheme \<Rightarrow> MemoryManager \<Rightarrow> string \<Rightarrow> bool \<times> MemoryManager" where
  "mm_load_session env mm session_id =
     (if memory_mode mm \<noteq> PERSISTENT then (False, mm)
      else
        let mm1 = mm\<lparr>transient_memory := []\<rparr>
        in case session_files mm1 session_id of
             None \<Rightarrow> (False, mm1)
           | Some Unreadable \<Rightarrow> (False, mm1)
           | Some (Json d) \<Rightarrow>
               let mm2 = mm1\<lparr>transient_memory :=
                                transient_memory mm1 @ map replay_message (messages d)\<rparr>
               in (True, trim_transient_memory env mm2))"

definition create_session :: "'e memory_env_scheme \<Rightarrow> string" where
  "create_session env = uuid4 env"

text \<open>A run of appends: each is a user or an assistant message with the session id given.\<close>

datatype append_call = AddUser string "string option" | AddAi string "string option"

fun append_message :: "append_call \<Rightarrow> message" where
  "append_message (AddUser t sid) = HumanMessage t"
| "append_message (AddAi t sid) = AIMessage t"

fun do_append :: "'e memory_env_scheme \<Rightarrow> MemoryManager \<Rightarrow> append_call \<Rightarrow> MemoryManager" where
  "do_append env mm (AddUser t sid) = add_user_message env mm t sid"
| "do_append env mm (AddAi t sid) = add_ai_message env mm t sid"

definition do_appends ::
  "'e memory_env_scheme \<Rightarrow> MemoryManager \<Rightarrow> append_call list \<Rightarrow> MemoryManager" where
  "do_appends env mm calls = foldl (do_append env) mm calls"

text \<open>The most recent \<open>n\<close> elements of a list, in their order.\<close>

definition most_recent :: "nat \<Rightarrow> 'a list \<Rightarrow> 'a list" where
  "most_recent n xs = drop (length xs - n) xs"

section \<open>Privacy filter (core/security/privacy\_filter.py)\<close>

subsection \<open>Regular expressions as Python's \<^verbatim>\<open>re\<close> matches them\<close>

text \<open>
  The character classes of \<^verbatim>\<open>re\<close> on code points below 256: \<^verbatim>\<open>\d\<close>,
  \<^verbatim>\<open>\w\<close> (alphanumerics and the underscore) and \<^verbatim>\<open>\s\<close>.
\<close>

definition in_range :: "nat \<Rightarrow> nat \<Rightarrow> char \<Rightarrow> bool" where
  "in_range lo hi c = (lo \<le> of_char c \<and> (of_char c :: nat) \<le> hi)"

definition digit :: "char \<Rightarrow> bool" where
  "digit c = in_range 48 57 c"

definition upper :: "char \<Rightarrow> bool" where
  "upper c = in_range 65 90 c"

definition lower :: "char \<Rightarrow> bool" where
  "lower c = in_range 97 122 c"

definition alnum :: "char \<Rightarrow> bool" where
  "alnum c = (upper c \<or> lower c \<or> digit c)"

definition word_char :: "char \<Rightarrow> bool" where
  "word_char c = (alnum c \<or> c = CHR ''_'' \<or> of_char c = (170::nat) \<or> in_range 178 179 c
     \<or> of_char c = (181::nat) \<or> in_range 185 186 c \<or> in_range 188 190 c
     \<or> in_range 192 214 c \<or> in_range 216 246 c \<or> in_range 248 255 c)"

text \<open>
  The patterns of the filter use character sets, \<^verbatim>\<open>\b\<close>, sequence, alternation and
  greedy repetition \<^verbatim>\<open>{m,n}\<close> (\<open>None\<close> for no upper bound; \<^verbatim>\<open>?\<close> is
  \<^verbatim>\<open>{0,1}\<close> and \<^verbatim>\<open>+\<close> is \<^verbatim>\<open>{1,}\<close>).
\<close>

datatype rx = Sym "char \<Rightarrow> bool" | Boundary | Seq rx rx | Alt rx rx | Rep rx nat "nat option"

text \<open>
  A position in the subject is the character before it, if any, and the text from it
  on. \<^verbatim>\<open>\b\<close> holds where exactly one side is a word character.
\<close>

type_synonym pos = "char option \<times> string"

fun word_before :: "pos \<Rightarrow> bool" where
  "word_before (None, rest) = False"
| "word_before (Some c, rest) = word_char c"

fun word_after :: "pos \<Rightarrow> bool" where
  "word_after (prev, []) = False"
| "word_after (prev, c # cs) = word_char c"

text \<open>
  Greedy repetition of a matcher \<open>f\<close>: \<open>lo\<close> iterations that must happen, then up to
  \<open>extra\<close> more, the longer alternatives first; an iteration that consumes nothing
  ends the repetition.
\<close>

fun rep :: "(pos \<Rightarrow> pos list) \<Rightarrow> nat \<Rightarrow> nat \<Rightarrow> pos \<Rightarrow> pos list" where
  "rep f 0 0 p = [p]"
| "rep f 0 (Suc k) p =
     concat (map (rep f 0 k) (filter (\<lambda>q. length (snd q) < length (snd p)) (f p))) @ [p]"
| "rep f (Suc lo) k p = concat (map (rep f lo k) (f p))"

text \<open>
  \<open>ends r p\<close>: the positions where a match of \<open>r\<close> that starts at \<open>p\<close> can end, in
  the order in which the backtracking matcher tries them. The match \<^verbatim>\<open>re\<close> reports
  at \<open>p\<close> is the first.
\<close>

primrec ends :: "rx \<Rightarrow> pos \<Rightarrow> pos list" where
  "ends (Sym cls) p =
     (case snd p of [] \<Rightarrow> [] | c # cs \<Rightarrow> if cls c then [(Some c, cs)] else [])"
| "ends Boundary p = (if word_before p \<noteq> word_after p then [p] else [])"
| "ends (Seq a b) p = concat (map (ends b) (ends a p))"
| "ends (Alt a b) p = ends a p @ ends b p"
| "ends (Rep a lo hi) p =
     rep (ends a) lo (case hi of None \<Rightarrow> length (snd p) | Some h \<Rightarrow> h - lo) p"

definition match_at :: "rx \<Rightarrow> pos \<Rightarrow> pos option" where
  "match_at r p = (case ends r p of [] \<Rightarrow> None | q # qs \<Rightarrow> Some q)"

text \<open>
  \<^verbatim>\<open>re.sub(pattern, repl, text)\<close>: the scan from the left over non-overlapping
  matches. \<open>skip\<close> counts the characters of the current match still to pass. An empty
  match is replaced too and the scan moves on by one character.
\<close>

fun sub_scan :: "rx \<Rightarrow> string \<Rightarrow> nat \<Rightarrow> char option \<Rightarrow> string \<Rightarrow> string" where
  "sub_scan r repl skip prev [] =
     (if skip = 0 \<and> match_at r (prev, []) \<noteq> None then repl else [])"
| "sub_scan r repl (Suc k) prev (c # cs) = sub_scan r repl k (Some c) cs"
| "sub_scan r repl 0 prev (c # cs) =
     (case match_at r (prev, c # cs) of
        None \<Rightarrow> c # sub_scan r repl 0 (Some c) cs
      | Some q \<Rightarrow>
          let n = length (c # cs) - length (snd q)
          in if n = 0 then repl @ c # sub_scan r repl 0 (Some c) cs
             else repl @ sub_scan r repl (n - 1) (Some c) cs)"

definition re_sub :: "rx \<Rightarrow> string \<Rightarrow> string \<Rightarrow> string" where
  "re_sub r repl s = sub_scan r repl 0 None s"

text \<open>
  \<^verbatim>\<open>re.findall(pattern, text)\<close> over the same scan, as the list of matched texts.
  (For a pattern with one group Python lists the group's text instead; the filter only
  asks whether the list is empty.)
\<close>

fun findall_scan :: "rx \<Rightarrow> nat \<Rightarrow> char option \<Rightarrow> string \<Rightarrow> string list" where
  "findall_scan r skip prev [] =
     (if skip = 0 \<and> match_at r (prev, []) \<noteq> None then [[]] else [])"
| "findall_scan r (Suc k) prev (c # cs) = findall_scan r k (Some c) cs"
| "findall_scan r 0 prev (c # cs) =
     (case match_at r (prev, c # cs) of
        None \<Rightarrow> findall_scan r 0 (Some c) cs
      | Some q \<Rightarrow>
          let n = length (c # cs) - length (snd q)
          in take n (c # cs) # findall_scan r (n - 1) (Some c) cs)"

definition re_findall :: "rx \<Rightarrow> string \<Rightarrow> string list" where
  "re_findall r s = findall_scan r 0 None s"

text \<open>\<^verbatim>\<open>re.search\<close>: is there a match starting anywhere in the text.\<close>

fun search_from :: "rx \<Rightarrow> char option \<Rightarrow> string \<Rightarrow> bool" where
  "search_from r prev [] = (match_at r (prev, []) \<noteq> None)"
| "search_from r prev (c # cs) =
     (match_at r (prev, c # cs) \<noteq> None \<or> search_from r (Some c) cs)"

definition re_search :: "rx \<Rightarrow> string \<Rightarrow> bool" where
  "re_search r s = search_from r None s"

subsection \<open>The patterns\<close>

definition lit :: "char \<Rightarrow> rx" where
  "lit c = Sym (\<lambda>x. x = c)"

definition one_of :: "string \<Rightarrow> char \<Rightarrow> bool" where
  "one_of cs c = (c \<in> set cs)"

text \<open>A sequence of patterns; the empty sequence matches the empty text.\<close>

fun seqs :: "rx list \<Rightarrow> rx" where
  "seqs [] = Rep Boundary 0 (Some 0)"
| "seqs [r] = r"
| "seqs (r # rs) = Seq r (seqs rs)"

definition opt :: "rx \<Rightarrow> rx" where
  "opt r = Rep r 0 (Some 1)"

definition times :: "nat \<Rightarrow> rx \<Rightarrow> rx" where
  "times n r = Rep r n (Some n)"

definition plus :: "rx \<Rightarrow> rx" where
  "plus r = Rep r 1 None"

definition sep_space_dash :: rx where
  "sep_space_dash = Sym (\<lambda>c. isspace c \<or> c = CHR ''-'')"

definition sep_space_dot_dash :: rx where
  "sep_space_dot_dash = Sym (\<lambda>c. isspace c \<or> c = CHR ''.'' \<or> c = CHR ''-'')"

text \<open>\<^verbatim>\<open>\b[A-Za-z0-9._%+-]+@[A-Za-z0-9.-]+\.[A-Z|a-z]{2,}\b\<close>\<close>

definition email_rx :: rx where
  "email_rx = seqs [Boundary,
     plus (Sym (\<lambda>c. alnum c \<or> one_of ''._%+-'' c)),
     lit CHR ''@'',
     plus (Sym (\<lambda>c. alnum c \<or> one_of ''.-'' c)),
     lit CHR ''.'',
     Rep (Sym (\<lambda>c. upper c \<or> lower c \<or> c = CHR ''|'')) 2 None,
     Boundary]"

text \<open>\<^verbatim>\<open>\b(\+\d{1,3}[\s-]?)?\(?\d{3}\)?[\s.-]?\d{3}[\s.-]?\d{4}\b\<close>\<close>

definition phone_rx :: rx where
  "phone_rx = seqs [Boundary,
     opt (seqs [lit CHR ''+'', Rep (Sym digit) 1 (Some 3), opt sep_space_dash]),
     opt (lit CHR ''(''), times 3 (Sym digit), opt (lit CHR '')''),
     opt sep_space_dot_dash, times 3 (Sym digit),
     opt sep_space_dot_dash, times 4 (Sym digit),
     Boundary]"

text \<open>
  \<^verbatim>\<open>\b(?:\d{4}[\s-]?){4}|\d{16}\b\<close>: the alternation binds weakest, so the first
  branch has the leading \<^verbatim>\<open>\b\<close> only and the second the trailing one only.
\<close>

definition credit_card_rx :: rx where
  "credit_card_rx = Alt
     (seqs [Boundary, times 4 (seqs [times 4 (Sym digit), opt sep_space_dash])])
     (seqs [times 16 (Sym digit), Boundary])"

text \<open>\<^verbatim>\<open>\b\d{3}[-]?\d{2}[-]?\d{4}\b\<close>\<close>

definition ssn_rx :: rx where
  "ssn_rx = seqs [Boundary, times 3 (Sym digit), opt (lit CHR ''-''),
     times 2 (Sym digit), opt (lit CHR ''-''), times 4 (Sym digit), Boundary]"

text \<open>\<^verbatim>\<open>\b\d{1,3}\.\d{1,3}\.\d{1,3}\.\d{1,3}\b\<close>\<close>

definition ip_address_rx :: rx where
  "ip_address_rx = seqs [Boundary,
     Rep (Sym digit) 1 (Some 3), lit CHR ''.'', Rep (Sym digit) 1 (Some 3), lit CHR ''.'',
     Rep (Sym digit) 1 (Some 3), lit CHR ''.'', Rep (Sym digit) 1 (Some 3), Boundary]"

text \<open>\<^verbatim>\<open>\b[A-Za-z0-9_-]{20,60}\b\<close>\<close>

definition api_key_rx :: rx where
  "api_key_rx = seqs [Boundary,
     Rep (Sym (\<lambda>c. alnum c \<or> one_of ''_-'' c)) 20 (Some 60), Boundary]"

text \<open>\<^verbatim>\<open>https?://[^:]+:[^@]+@[^\s]+\<close>\<close>

definition url_with_credentials_rx :: rx where
  "url_with_credentials_rx = seqs [lit CHR ''h'', lit CHR ''t'', lit CHR ''t'', lit CHR ''p'',
     opt (lit CHR ''s''), lit CHR '':'', lit CHR ''/'', lit CHR ''/'',
     plus (Sym (\<lambda>c. c \<noteq> CHR '':'')), lit CHR '':'',
     plus (Sym (\<lambda>c. c \<noteq> CHR ''@'')), lit CHR ''@'',
     plus (Sym (\<lambda>c. \<not> isspace c))]"

datatype category = email | phone | credit_card | ssn | ip_address | api_key
  | url_with_credentials

text \<open>The dictionary \<^verbatim>\<open>self.patterns\<close>, in insertion order.\<close>

definition patterns :: "(category \<times> rx) list" where
  "patterns = [(email, email_rx), (phone, phone_rx), (credit_card, credit_card_rx),
     (ssn, ssn_rx), (ip_address, ip_address_rx), (api_key, api_key_rx),
     (url_with_credentials, url_with_credentials_rx)]"

fun marker :: "category \<Rightarrow> string" where
  "marker email = ''[EMAIL REDACTED]''"
| "marker phone = ''[PHONE REDACTED]''"
| "marker credit_card = ''[CREDIT CARD REDACTED]''"
| "marker ssn = ''[SSN REDACTED]''"
| "marker ip_address = ''[IP ADDRESS REDACTED]''"
| "marker api_key = ''[API KEY REDACTED]''"
| "marker url_with_credentials = ''[URL WITH CREDENTIALS REDACTED]''"

subsection \<open>The filter\<close>

record PrivacyFilter =
  enable_filter :: bool

definition enable :: "PrivacyFilter \<Rightarrow> PrivacyFilter" where
  "enable pf = pf\<lparr>enable_filter := True\<rparr>"

definition disable :: "PrivacyFilter \<Rightarrow> PrivacyFilter" where
  "disable pf = pf\<lparr>enable_filter := False\<rparr>"

text \<open>One turn of the loop of \<^verbatim>\<open>filter_text\<close> over the patterns.\<close>

definition filter_step :: "category \<times> rx \<Rightarrow> string \<times> bool \<Rightarrow> string \<times> bool" where
  "filter_step cp st =
     (if re_findall (snd cp) (fst st) \<noteq> []
      then (re_sub (snd cp) (marker (fst cp)) (fst st), True) else st)"

definition filter_text :: "PrivacyFilter \<Rightarrow> string \<Rightarrow> string \<times> bool" where
  "filter_text pf txt =
     (if \<not> enable_filter pf then (txt, False)
      else fold filter_step patterns (txt, False))"

section \<open>Vector store (core/vector\_store/chroma\_store.py)\<close>

text \<open>A retrieved passage: its text and its metadata dictionary.\<close>

datatype pyval = PyNone | PyStr string

record document =
  doc_page_content :: string
  metadata :: "string \<rightharpoonup> pyval"

text \<open>A web search result is a dictionary of strings.\<close>

datatype search_results =
    ResultList "(string \<rightharpoonup> string) list"
  | ResultDict "(string \<rightharpoonup> string) list option"
  | ResultStr string
  | ResultOther

datatype llm_client = ChatOpenAI | ChatAnthropic | ChatGroq | ChatOllama

datatype prompt = DEFAULT_PROMPT | RAG_PROMPT | WEB_SEARCH_PROMPT

text \<open>The \<^verbatim>\<open>input_variables\<close> each chain's \<^verbatim>\<open>PromptTemplate\<close> is built with.\<close>

fun input_variables :: "prompt \<Rightarrow> string list" where
  "input_variables DEFAULT_PROMPT = [''question'']"
| "input_variables RAG_PROMPT = [''context'', ''question'']"
| "input_variables WEB_SEARCH_PROMPT = [''question'', ''search_results'']"

datatype chain = LLMChain llm_client prompt | ConversationalRetrievalChain llm_client

text \<open>
  The backends, as the engine sees them: the credentials, and for every constructor
  and call of a library whether it raises and what it returns. \<open>new_ChatOllama_tested\<close>
  is the Ollama constructor together with the test call that follows it.
\<close>

record env = memory_env +
  model_config :: ModelConfig
  new_HuggingFaceEmbeddings :: "exn option"
  requests_get_ollama_tags :: "exn + nat"
  new_OllamaEmbeddings :: "exn option"
  new_ChatOpenAI :: "exn option"
  new_ChatAnthropic :: "exn option"
  new_ChatGroq :: "exn option"
  new_ChatOllama_tested :: "exn option"
  new_LLMChain :: "llm_client \<Rightarrow> prompt \<Rightarrow> exn option"
  new_ConversationalRetrievalChain :: "llm_client \<Rightarrow> exn option"
  new_TavilySearch :: "exn option"
  chain_invoke :: "chain \<Rightarrow> (string \<times> string) list \<Rightarrow> exn + (string \<rightharpoonup> string)"
  llm_invoke :: "llm_client \<Rightarrow> string \<Rightarrow> exn + string"
  chroma_similarity_search :: "string \<Rightarrow> nat \<Rightarrow> exn + document list"
  search_tool_invoke :: "string \<Rightarrow> exn + search_results"

record VectorStore =
  embedding_provider :: EmbeddingProvider
  embeddings :: embeddings

definition get_fallback_embeddings :: embeddings where
  "get_fallback_embeddings = FallbackEmbeddings"

text \<open>
  \<^verbatim>\<open>_initialize_ollama_embeddings\<close>: the probe, a status other than 200 and the
  constructor all end in the one handler, whose two branches both return the fallback.
\<close>

definition initialize_ollama_embeddings :: "env \<Rightarrow> VectorStore \<Rightarrow> embeddings" where
  "initialize_ollama_embeddings env vs =
     (case (case requests_get_ollama_tags env of
              Inl e \<Rightarrow> Inl e
            | Inr status \<Rightarrow>
                if status = 200
                then (case new_OllamaEmbeddings env of
                        None \<Rightarrow> Inr OllamaEmbeddings | Some e \<Rightarrow> Inl e)
                else Inl (ConnectionError ''Ollama server returned status code'')) of
        Inr emb \<Rightarrow> emb
      | Inl e \<Rightarrow>
          if embedding_provider vs = EMB_OLLAMA then get_fallback_embeddings
          else get_fallback_embeddings)"

text \<open>
  \<^verbatim>\<open>_initialize_embeddings\<close> returns the client and leaves the provider field as
  the fallback set it. Nothing in it raises past the inner handlers.
\<close>

definition initialize_embeddings :: "env \<Rightarrow> VectorStore \<Rightarrow> embeddings \<times> VectorStore" where
  "initialize_embeddings env vs =
     (if embedding_provider vs = EMB_HUGGINGFACE
      then (case new_HuggingFaceEmbeddings env of
              None \<Rightarrow> (HuggingFaceEmbeddings, vs)
            | Some e \<Rightarrow>
                let vs1 = vs\<lparr>embedding_provider := EMB_OLLAMA\<rparr>
                in (initialize_ollama_embeddings env vs1, vs1))
      else (initialize_ollama_embeddings env vs, vs))"

text \<open>
  \<^verbatim>\<open>__init__\<close>, up to the assignment of \<^verbatim>\<open>self.embeddings\<close> (the Chroma database
  of the store is not modelled). \<^verbatim>\<open>_initialize_embeddings\<close> reads the provider field
  only, so the client the record starts with is never seen.
\<close>

definition new_VectorStore :: "env \<Rightarrow> EmbeddingProvider \<Rightarrow> VectorStore" where
  "new_VectorStore env provider =
     (let (emb, vs) = initialize_embeddings env
                        \<lparr>embedding_provider = provider, embeddings = FallbackEmbeddings\<rparr>
      in vs\<lparr>embeddings := emb\<rparr>)"

text \<open>The provider an embedding client belongs to; the hash-based fallback has none.\<close>

fun provider_of_embeddings :: "embeddings \<Rightarrow> EmbeddingProvider option" where
  "provider_of_embeddings HuggingFaceEmbeddings = Some EMB_HUGGINGFACE"
| "provider_of_embeddings OllamaEmbeddings = Some EMB_OLLAMA"
| "provider_of_embeddings FallbackEmbeddings = None"

definition enhance_query_with_history :: "string \<Rightarrow> message list \<Rightarrow> string" where
  "enhance_query_with_history query chat_history =
     (if chat_history = [] then query
      else
        let recent_history = slice_from (- 6) chat_history;
            history_context = ''Previous conversation:'' @ [newline] @
              concat (map (\<lambda>msg. case msg of
                         HumanMessage c \<Rightarrow> ''User: '' @ c @ [newline]
                       | AIMessage c \<Rightarrow> ''Assistant: '' @ c @ [newline]) recent_history)
        in history_context @ [newline] @ ''Current question: '' @ query)"

definition similarity_search ::
  "env \<Rightarrow> string \<Rightarrow> nat \<Rightarrow> message list \<Rightarrow> exn + document list" where
  "similarity_search env query k chat_history =
     chroma_similarity_search env (enhance_query_with_history query chat_history) k"

section \<open>Orchestration engine (core/llm/llm\_service.py)\<close>

subsection \<open>String helpers of Python\<close>

fun join :: "string \<Rightarrow> string list \<Rightarrow> string" where
  "join sep [] = []"
| "join sep [x] = x"
| "join sep (x # xs) = x @ sep @ join sep xs"

text \<open>\<^verbatim>\<open>s.rfind(c)\<close>: the last index of \<open>c\<close>, or \<open>-1\<close>.\<close>

definition rfind :: "char \<Rightarrow> string \<Rightarrow> int" where
  "rfind c s =
     (if c \<in> set s then int (length s - 1 - length (takeWhile (\<lambda>x. x \<noteq> c) (rev s)))
      else - 1)"

text \<open>\<^verbatim>\<open>sub in s\<close> for strings.\<close>

fun contains :: "string \<Rightarrow> string \<Rightarrow> bool" where
  "contains sub [] = (sub = [])"
| "contains sub (c # cs) = (take (length sub) (c # cs) = sub \<or> contains sub cs)"

definition endswith :: "char \<Rightarrow> string \<Rightarrow> bool" where
  "endswith c s = (s \<noteq> [] \<and> last s = c)"

definition lower_char :: "char \<Rightarrow> char" where
  "lower_char c =
     (if in_range 65 90 c \<or> in_range 192 214 c \<or> in_range 216 222 c
      then char_of (of_char c + (32::nat)) else c)"

definition backslash :: char where
  "backslash = CHR 0x5C"

subsection \<open>Prompts (core/llm/prompts.py)\<close>

text \<open>\<^verbatim>\<open>DEFAULT_PROMPT\<close> and \<^verbatim>\<open>RAG_PROMPT\<close> with their fields filled in.\<close>

definition DEFAULT_PROMPT_format :: "string \<Rightarrow> string" where
  "DEFAULT_PROMPT_format question =
     concat [([CHR 0x0A] @ ''You are a helpful AI assistant. Answer the user'' @ [CHR 0x27]
       @ ''s question to the best of your knowledge.'' @ [CHR 0x0A] @ [CHR 0x0A]
       @ ''Question: ''),
       question,
       ([CHR 0x0A] @ [CHR 0x0A] @ ''Answer:'' @ [CHR 0x0A])]"

definition RAG_PROMPT_format :: "string \<Rightarrow> string \<Rightarrow> string" where
  "RAG_PROMPT_format context question =
     concat [([CHR 0x0A] @ ''You are a helpful AI assistant. Answer the user'' @ [CHR 0x27]
       @ ''s question based ONLY on the following context:'' @ [CHR 0x0A] @ [CHR 0x0A]
       @ ''Context:'' @ [CHR 0x0A]),
       context,
       ([CHR 0x0A] @ [CHR 0x0A] @ ''Question: ''),
       question,
       ([CHR 0x0A] @ [CHR 0x0A] @ ''Instructions:'' @ [CHR 0x0A]
       @ ''1. Use ONLY information from the provided context'' @ [CHR 0x0A]
       @ ''2. If the context doesn'' @ [CHR 0x27]
       @ ''t contain relevant information, say '' @ [CHR 0x22] @ ''I don'' @ [CHR 0x27]
       @ ''t have information about that in my knowledge base'' @ [CHR 0x22] @ [CHR 0x0A]
       @ ''3. Do not use any prior knowledge or make up information'' @ [CHR 0x0A]
       @ ''4. Include the source file name at the end of your response ''
       @ ''in the format: [Source: filename.txt]'' @ [CHR 0x0A] @ [CHR 0x0A]
       @ ''Answer:'' @ [CHR 0x0A])]"

text \<open>The prompt \<^verbatim>\<open>_get_web_search_response\<close> formats in place.\<close>

definition web_search_prompt_format :: "string \<Rightarrow> string \<Rightarrow> string" where
  "web_search_prompt_format question search_results =
     concat [([CHR 0x0A] @ ''You are a helpful AI assistant with access to real-time web ''
       @ ''search.'' @ [CHR 0x0A] @ ''I'' @ [CHR 0x27] @ ''ve searched the web for: ''
       @ [CHR 0x22]),
       question,
       ([CHR 0x22] @ '' '' @ [CHR 0x0A] @ ''Here are the search results:'' @ [CHR 0x0A]
       @ [CHR 0x0A]),
       search_results,
       ([CHR 0x0A] @ [CHR 0x0A]
       @ ''Based on these search results, please answer the original qu'' @ ''estion: ''),
       question,
       ([CHR 0x0A] @ [CHR 0x0A] @ ''Instructions:'' @ [CHR 0x0A]
       @ ''1. Use information from the search results to provide a comp''
       @ ''rehensive answer'' @ [CHR 0x0A]
       @ ''2. DO NOT cite sources within your answer text - they will b''
       @ ''e added automatically at the end'' @ [CHR 0x0A]
       @ ''3. DO NOT mention URLs, source names, or phrases like '' @ [CHR 0x22]
       @ ''according to...'' @ [CHR 0x22] @ '' in your response'' @ [CHR 0x0A]
       @ ''4. If the search results don'' @ [CHR 0x27]
       @ ''t contain relevant information, say so and provide your best'' @ '' answer''
       @ [CHR 0x0A] @ ''5. Focus on providing factual information only'' @ [CHR 0x0A]
       @ [CHR 0x0A] @ ''Answer:'' @ [CHR 0x0A])]"

subsection \<open>The engine\<close>

text \<open>
  The fields of \<^verbatim>\<open>LLM\<close>. \<open>engine_memory_mode\<close> is \<^verbatim>\<open>self.memory_mode\<close> (the
  manager has a field of that name too); \<open>memory\<close> is the message list of the legacy
  LangChain memory; \<open>has_search_tool\<close> is \<^verbatim>\<open>hasattr(self, 'search_tool')\<close>.
\<close>

record LLM =
  vector_store :: VectorStore
  model_provider :: ModelProvider
  answer_mode :: AnswerMode
  engine_memory_mode :: MemoryMode
  session_id :: "string option"
  privacy_filter :: PrivacyFilter
  memory_manager :: MemoryManager
  memory :: "message list"
  llm :: llm_client
  chain :: chain
  has_search_tool :: bool

text \<open>A constructor call of a library: the client, or the exception it raised.\<close>

definition construct :: "exn option \<Rightarrow> 'a \<Rightarrow> exn + 'a" where
  "construct outcome client = (case outcome of None \<Rightarrow> Inr client | Some e \<Rightarrow> Inl e)"

text \<open>
  \<^verbatim>\<open>_initialize_llm\<close>: the client or the exception re-raised, and the engine, whose
  provider field the Ollama fallback has set to Groq. The last \<^verbatim>\<open>else\<close> of the
  source is for a value outside the enumeration.
\<close>

definition initialize_llm :: "env \<Rightarrow> LLM \<Rightarrow> (exn + llm_client) \<times> LLM" where
  "initialize_llm env s =
     (case model_provider s of
        OPENAI \<Rightarrow>
          (if \<not> truthy (OPENAI_API_KEY (model_config env))
           then Inl (ValueError ''OpenAI API key not found. Please set OPENAI_API_KEY environment variable.'')
           else construct (new_ChatOpenAI env) ChatOpenAI, s)
      | ANTHROPIC \<Rightarrow>
          (if \<not> truthy (ANTHROPIC_API_KEY (model_config env))
           then Inl (ValueError ''Anthropic API key not found. Please set ANTHROPIC_API_KEY environment variable.'')
           else construct (new_ChatAnthropic env) ChatAnthropic, s)
      | GROQ \<Rightarrow>
          (if \<not> truthy (GROQ_API_KEY (model_config env))
           then Inl (ValueError ''Groq API key not found. Please set GROQ_API_KEY environment variable.'')
           else construct (new_ChatGroq env) ChatGroq, s)
      | OLLAMA \<Rightarrow>
          (case new_ChatOllama_tested env of
             None \<Rightarrow> (Inr ChatOllama, s)
           | Some e \<Rightarrow>
               (construct (new_ChatGroq env) ChatGroq, s\<lparr>model_provider := GROQ\<rparr>)))"

fun provider_of_client :: "llm_client \<Rightarrow> ModelProvider" where
  "provider_of_client ChatOpenAI = OPENAI"
| "provider_of_client ChatAnthropic = ANTHROPIC"
| "provider_of_client ChatGroq = GROQ"
| "provider_of_client ChatOllama = OLLAMA"

text \<open>
  The chain initialisers return the exception that escaped, if any, and the engine as
  the assignments made before it left it.
\<close>

definition initialize_default_chain :: "env \<Rightarrow> LLM \<Rightarrow> exn option \<times> LLM" where
  "initialize_default_chain env s =
     (case new_LLMChain env (llm s) DEFAULT_PROMPT of
        None \<Rightarrow> (None, s\<lparr>chain := LLMChain (llm s) DEFAULT_PROMPT\<rparr>)
      | Some e \<Rightarrow> (Some e, s))"

definition initialize_rag_chain :: "env \<Rightarrow> LLM \<Rightarrow> exn option \<times> LLM" where
  "initialize_rag_chain env s =
     (case new_ConversationalRetrievalChain env (llm s) of
        None \<Rightarrow> (None, s\<lparr>chain := ConversationalRetrievalChain (llm s)\<rparr>)
      | Some e \<Rightarrow> (Some e, s))"

definition initialize_web_search_chain :: "env \<Rightarrow> LLM \<Rightarrow> exn option \<times> LLM" where
  "initialize_web_search_chain env s =
     (if \<not> truthy (TAVILY_API_KEY (app_config env)) then initialize_default_chain env s
      else
        case new_TavilySearch env of
          Some e \<Rightarrow> initialize_default_chain env s
        | None \<Rightarrow>
            (let s1 = s\<lparr>has_search_tool := True\<rparr>
             in (case new_LLMChain env (llm s1) WEB_SEARCH_PROMPT of
                   None \<Rightarrow> (None, s1\<lparr>chain := LLMChain (llm s1) WEB_SEARCH_PROMPT\<rparr>)
                 | Some e \<Rightarrow> initialize_default_chain env s1)))"

definition initialize_chain :: "env \<Rightarrow> LLM \<Rightarrow> exn option \<times> LLM" where
  "initialize_chain env s =
     (case answer_mode s of
        DEFAULT \<Rightarrow> initialize_default_chain env s
      | RAG \<Rightarrow> initialize_rag_chain env s
      | WEB_SEARCH \<Rightarrow> initialize_web_search_chain env s)"

text \<open>
  \<^verbatim>\<open>__init__\<close>: the engine, or the exception that left the constructor. The client and
  the chain the record starts with are overwritten before the constructor returns.
\<close>

definition new_LLM ::
  "env \<Rightarrow> VectorStore \<Rightarrow> ModelProvider \<Rightarrow> AnswerMode \<Rightarrow> MemoryMode \<Rightarrow>
   (string \<rightharpoonup> session_file) \<Rightarrow> memory_doc list \<Rightarrow> exn + LLM" where
  "new_LLM env vs provider amode mmode files docs =
     (let s = \<lparr>vector_store = vs, model_provider = provider, answer_mode = amode,
                engine_memory_mode = mmode, session_id = None,
                privacy_filter = \<lparr>enable_filter = ENABLE_PRIVACY_FILTER (app_config env)\<rparr>,
                memory_manager = new_MemoryManager env mmode (Some (embeddings vs)) files docs,
                memory = [], llm = ChatGroq, chain = LLMChain ChatGroq DEFAULT_PROMPT,
                has_search_tool = False\<rparr>
      in case initialize_llm env s of
           (Inl e, s1) \<Rightarrow> Inl e
         | (Inr client, s1) \<Rightarrow>
             (case initialize_chain env (s1\<lparr>llm := client\<rparr>) of
                (Some e, s2) \<Rightarrow> Inl e
              | (None, s2) \<Rightarrow> Inr s2))"

subsection \<open>Answering\<close>

definition get_default_response :: "env \<Rightarrow> LLM \<Rightarrow> string \<Rightarrow> exn + string" where
  "get_default_response env s query =
     (case chain_invoke env (chain s) [(''question'', query)] of
        Inl e \<Rightarrow> Inl e
      | Inr response \<Rightarrow>
          (case response ''text'' of
             None \<Rightarrow> Inl (KeyError ''text'')
           | Some t \<Rightarrow> Inr t))"

text \<open>
  One turn of the loop of \<^verbatim>\<open>_get_rag_response\<close> over the retrieved documents, on
  the list \<^verbatim>\<open>sources\<close>.
\<close>

definition last_segment :: "string \<Rightarrow> string" where
  "last_segment s = rev (takeWhile (\<lambda>c. c \<noteq> CHR ''/'') (rev s))"

definition add_source :: "string list \<Rightarrow> document \<Rightarrow> string list" where
  "add_source sources doc =
     (case metadata doc ''source'' of
        None \<Rightarrow> sources
      | Some PyNone \<Rightarrow> sources
      | Some (PyStr source) \<Rightarrow>
          if source = [] \<or> source \<in> set [''context.txt'', ''filename.txt'', ''None'']
          then sources
          else
            let source1 =
                  (if CHR ''/'' \<in> set source \<or> backslash \<in> set source
                   then last_segment (map (\<lambda>c. if c = backslash then CHR ''/'' else c) source)
                   else source)
            in if source1 \<notin> set sources then sources @ [source1] else sources)"

definition collect_sources :: "document list \<Rightarrow> string list" where
  "collect_sources docs = foldl add_source [] docs"

text \<open>The end of \<^verbatim>\<open>_get_rag_response\<close>: the model's own citation goes, ours is added.\<close>

definition attribute_sources :: "string \<Rightarrow> string list \<Rightarrow> string" where
  "attribute_sources content0 sources =
     (let content =
            (if endswith CHR '']'' (strip content0) \<and>
                contains ''[Source'' (slice_from (rfind CHR ''['' content0) content0)
             then strip (slice_to (rfind CHR ''['' content0) content0)
             else content0)
      in if sources \<noteq> []
         then (if length sources = 1
               then content @ [newline, newline] @ ''[Source: '' @ sources ! 0 @ '']''
               else content @ [newline, newline] @ ''[Sources: '' @ join '', '' sources @ '']'')
         else content)"

definition get_rag_response :: "env \<Rightarrow> LLM \<Rightarrow> string \<Rightarrow> exn + string" where
  "get_rag_response env s query =
     (let chat_history = get_chat_history (memory_manager s)
      in case similarity_search env query 4 chat_history of
           Inl e \<Rightarrow> Inl e
         | Inr docs \<Rightarrow>
             let context_parts = map doc_page_content docs;
                 sources = collect_sources docs;
                 formatted_prompt =
                   RAG_PROMPT_format (join [newline, newline] context_parts) query
             in (case llm_invoke env (llm s) formatted_prompt of
                   Inl e \<Rightarrow> Inl e
                 | Inr content \<Rightarrow> Inr (attribute_sources content sources)))"

definition dict_get :: "(string \<rightharpoonup> string) \<Rightarrow> string \<Rightarrow> string \<Rightarrow> string" where
  "dict_get d k dflt = (case d k of None \<Rightarrow> dflt | Some v \<Rightarrow> v)"

definition format_result :: "(string \<rightharpoonup> string) \<Rightarrow> string" where
  "format_result result =
     ''Title: '' @ dict_get result ''title'' ''No title'' @ [newline] @
     ''Content: '' @ dict_get result ''content'' ''No content'' @ [newline] @ ''---''"

definition result_urls :: "(string \<rightharpoonup> string) list \<Rightarrow> string list" where
  "result_urls results =
     map (\<lambda>r. dict_get r ''url'' []) (filter (\<lambda>r. truthy (r ''url'')) results)"

text \<open>The \<^verbatim>\<open>try\<close> block of \<^verbatim>\<open>_get_web_search_response\<close>.\<close>

definition web_search_attempt :: "env \<Rightarrow> LLM \<Rightarrow> string \<Rightarrow> exn + string" where
  "web_search_attempt env s query =
     (case (if has_search_tool s then search_tool_invoke env query
            else Inl (AttributeError ''search_tool'')) of
        Inl e \<Rightarrow> Inl e
      | Inr search_results \<Rightarrow>
          (case (case search_results of
                   ResultList rs \<Rightarrow> Inr (map format_result rs)
                 | ResultDict (Some rs) \<Rightarrow> Inr (map format_result rs)
                 | ResultDict None \<Rightarrow> Inl (ValueError ''Unexpected search results format'')
                 | ResultStr t \<Rightarrow> Inr [t]
                 | ResultOther \<Rightarrow> Inl (ValueError ''Unexpected search results format'')) of
             Inl e \<Rightarrow> Inl e
           | Inr formatted_results \<Rightarrow>
               let all_results = join [newline, newline] formatted_results;
                   formatted_prompt = web_search_prompt_format query all_results
               in (case llm_invoke env (llm s) formatted_prompt of
                    Inl e \<Rightarrow> Inl e
                  | Inr result0 \<Rightarrow>
                      let urls = (case search_results of
                                    ResultList rs \<Rightarrow> result_urls rs
                                  | ResultDict (Some rs) \<Rightarrow> result_urls rs
                                  | ResultDict None \<Rightarrow> []
                                  | ResultStr t \<Rightarrow> []
                                  | ResultOther \<Rightarrow> [])
                      in if urls \<noteq> []
                         then
                           let last_bracket = rfind CHR ''['' result0;
                               result1 =
                                 (if endswith CHR '']'' (strip result0) \<and> last_bracket > 0 \<and>
                                     contains ''source''
                                       (map lower_char (slice_from last_bracket result0))
                                  then strip (slice_to last_bracket result0) else result0)
                           in Inr (result1 @ [newline, newline] @ ''[Sources: '' @
                                   join '', '' urls @ '']'')
                         else Inr result0)))"

definition get_web_search_response :: "env \<Rightarrow> LLM \<Rightarrow> string \<Rightarrow> exn + string" where
  "get_web_search_response env s query =
     (case web_search_attempt env s query of
        Inr result \<Rightarrow> Inr result
      | Inl e \<Rightarrow> get_default_response env s query)"

definition dispatch :: "env \<Rightarrow> LLM \<Rightarrow> string \<Rightarrow> exn + string" where
  "dispatch env s query =
     (case answer_mode s of
        DEFAULT \<Rightarrow> get_default_response env s query
      | RAG \<Rightarrow> get_rag_response env s query
      | WEB_SEARCH \<Rightarrow> get_web_search_response env s query)"

text \<open>
  The \<^verbatim>\<open>try\<close> block of \<^verbatim>\<open>get_response\<close>: its value or the exception that left
  it, and the engine as it was at that point. The legacy memory is given the buffer's
  messages as they are at the assignment; nothing in the engine reads it afterwards.
\<close>

definition get_response_attempt :: "env \<Rightarrow> LLM \<Rightarrow> string \<Rightarrow> (exn + string \<times> bool) \<times> LLM" where
  "get_response_attempt env s query =
     (let (filtered_query, has_sensitive_data) = filter_text (privacy_filter s) query;
          chat_history = get_chat_history (memory_manager s);
          s1 = s\<lparr>memory := chat_history\<rparr>;
          s2 = s1\<lparr>memory_manager :=
                  add_user_message env (memory_manager s1) filtered_query (session_id s1)\<rparr>
      in case dispatch env s2 filtered_query of
           Inl e \<Rightarrow> (Inl e, s2)
         | Inr response \<Rightarrow>
             (Inr (response, has_sensitive_data),
              s2\<lparr>memory_manager :=
                   add_ai_message env (memory_manager s2) response (session_id s2)\<rparr>))"

definition error_message :: "exn \<Rightarrow> string" where
  "error_message e = ''I encountered an error processing your request: '' @ str_of_exn e"

text \<open>
  \<^verbatim>\<open>get_response\<close> with its handler. The result type keeps a place for an exception
  that would leave the method.
\<close>

definition get_response :: "env \<Rightarrow> LLM \<Rightarrow> string \<Rightarrow> (exn + string \<times> bool) \<times> LLM" where
  "get_response env s query =
     (case get_response_attempt env s query of
        (Inr r, s1) \<Rightarrow> (Inr r, s1)
      | (Inl e, s1) \<Rightarrow>
          let error_msg = error_message e
          in (Inr (error_msg, False),
              s1\<lparr>memory_manager :=
                   add_ai_message env (memory_manager s1) error_msg (session_id s1)\<rparr>))"

subsection \<open>Changing modes\<close>

text \<open>An argument typed \<^verbatim>\<open>str or Enum\<close>.\<close>

datatype 'a str_or = Str string | Enum 'a

fun ModelProvider_value :: "ModelProvider \<Rightarrow> string" where
  "ModelProvider_value OPENAI = ''openai''"
| "ModelProvider_value ANTHROPIC = ''anthropic''"
| "ModelProvider_value GROQ = ''groq''"
| "ModelProvider_value OLLAMA = ''ollama''"

fun AnswerMode_value :: "AnswerMode \<Rightarrow> string" where
  "AnswerMode_value DEFAULT = ''default''"
| "AnswerMode_value RAG = ''rag''"
| "AnswerMode_value WEB_SEARCH = ''web_search''"

text \<open>
  \<^verbatim>\<open>ModelProvider(v)\<close> looks the member up by value; when it raises, the source
  searches the members once more by value before giving up.
\<close>

definition to_ModelProvider :: "ModelProvider str_or \<Rightarrow> ModelProvider option" where
  "to_ModelProvider a =
     (case a of
        Enum p \<Rightarrow> Some p
      | Str v \<Rightarrow>
          (case find (\<lambda>p. ModelProvider_value p = v) [OPENAI, ANTHROPIC, GROQ, OLLAMA] of
             Some p \<Rightarrow> Some p
           | None \<Rightarrow> find (\<lambda>p. ModelProvider_value p = v) [OPENAI, ANTHROPIC, GROQ, OLLAMA]))"

definition to_AnswerMode :: "AnswerMode str_or \<Rightarrow> AnswerMode option" where
  "to_AnswerMode a =
     (case a of
        Enum m \<Rightarrow> Some m
      | Str v \<Rightarrow>
          (case find (\<lambda>m. AnswerMode_value m = v) [DEFAULT, RAG, WEB_SEARCH] of
             Some m \<Rightarrow> Some m
           | None \<Rightarrow> find (\<lambda>m. AnswerMode_value m = v) [DEFAULT, RAG, WEB_SEARCH]))"

definition change_model_provider :: "env \<Rightarrow> LLM \<Rightarrow> ModelProvider str_or \<Rightarrow> bool \<times> LLM" where
  "change_model_provider env s provider =
     (case to_ModelProvider provider of
        None \<Rightarrow> (False, s)
      | Some p \<Rightarrow>
          (let s1 = s\<lparr>model_provider := p\<rparr>
           in (case initialize_llm env s1 of
                 (Inl e, s2) \<Rightarrow> (False, s2)
               | (Inr client, s2) \<Rightarrow>
                   (case initialize_chain env (s2\<lparr>llm := client\<rparr>) of
                      (Some e, s3) \<Rightarrow> (False, s3)
                    | (None, s3) \<Rightarrow> (True, s3)))))"

definition change_answer_mode :: "env \<Rightarrow> LLM \<Rightarrow> AnswerMode str_or \<Rightarrow> bool \<times> LLM" where
  "change_answer_mode env s mode =
     (case to_AnswerMode mode of
        None \<Rightarrow> (False, s)
      | Some m \<Rightarrow>
          (case initialize_chain env (s\<lparr>answer_mode := m\<rparr>) of
             (Some e, s1) \<Rightarrow> (False, s1)
           | (None, s1) \<Rightarrow> (True, s1)))"

definition change_memory_mode :: "env \<Rightarrow> LLM \<Rightarrow> MemoryMode \<Rightarrow> bool \<times> LLM" where
  "change_memory_mode env s mode =
     (let (success, mm) = mm_change_memory_mode env (memory_manager s) mode;
          s1 = s\<lparr>memory_manager := mm\<rparr>
      in if success
         then
           let s2 = s1\<lparr>engine_memory_mode := mode\<rparr>
           in (success,
               if mode = PERSISTENT \<and> \<not> truthy (session_id s2)
               then s2\<lparr>session_id := Some (create_session env)\<rparr> else s2)
         else (success, s1))"

definition toggle_privacy_filter :: "LLM \<Rightarrow> bool \<Rightarrow> bool \<times> LLM" where
  "toggle_privacy_filter s on =
     (True, s\<lparr>privacy_filter :=
                 (if on then enable (privacy_filter s) else disable (privacy_filter s))\<rparr>)"

subsection \<open>Sessions\<close>

definition create_new_session :: "env \<Rightarrow> LLM \<Rightarrow> string option \<times> LLM" where
  "create_new_session env s =
     (let sid = create_session env;
          mm = (memory_manager s)\<lparr>transient_memory := []\<rparr>
      in (Some sid, s\<lparr>session_id := Some sid, memory_manager := mm, memory := []\<rparr>))"

definition load_session :: "env \<Rightarrow> LLM \<Rightarrow> string \<Rightarrow> bool \<times> LLM" where
  "load_session env s sid =
     (let (success, mm) = mm_load_session env (memory_manager s) sid;
          s1 = s\<lparr>memory_manager := mm\<rparr>
      in if success
         then (success, s1\<lparr>session_id := Some sid, memory := get_chat_history mm\<rparr>)
         else (success, s1))"

subsection \<open>The citation list as the specification words it\<close>







section \<open>Example states\<close>

text \<open>
  A reachable environment and manager, used to instantiate the theorems below: the
  configuration of the source, a clock reading, an identifier and a Chroma client that
  accepts every document.
\<close>

definition example_env :: memory_env where
  "example_env = \<lparr>app_config = AppConfig_src None, now_isoformat = ''2025-01-01T00:00:00'',
     uuid4 = ''0a1b'', new_Chroma_memory = None, chroma_add_documents = (\<lambda>d. None)\<rparr>"

definition new_manager :: "MemoryMode \<Rightarrow> MemoryManager" where
  "new_manager m = \<lparr>memory_mode = m, transient_memory = [], embedding_function = Some HuggingFaceEmbeddings,
     has_persistent_memory = (m = PERSISTENT), session_files = Map.empty, chat_history_collection = []\<rparr>"



text \<open>
  A backend for the engine: Groq and Tavily credentials set, no OpenAI key, every
  constructor succeeding, a web search that is unreachable, and a chain that checks its
  inputs as LangChain's \<^verbatim>\<open>Chain.invoke\<close> does (a prompt variable missing from the
  inputs raises \<^verbatim>\<open>ValueError\<close>) before it answers.
\<close>

definition example_documents :: "document list" where
  "example_documents =
     [\<lparr>doc_page_content = ''X is a thing.'', metadata = [''source'' \<mapsto> PyStr ''docs/manual.pdf'']\<rparr>,
      \<lparr>doc_page_content = ''Nothing.'', metadata = [''source'' \<mapsto> PyStr ''context.txt'']\<rparr>,
      \<lparr>doc_page_content = ''X again.'', metadata = [''source'' \<mapsto> PyStr ''manual.pdf'']\<rparr>,
      \<lparr>doc_page_content = ''More on X.'', metadata = [''source'' \<mapsto> PyStr ''guide.md'']\<rparr>]"

definition example_chain_invoke ::
  "chain \<Rightarrow> (string \<times> string) list \<Rightarrow> exn + (string \<rightharpoonup> string)" where
  "example_chain_invoke ch inputs =
     (case ch of
        LLMChain client p \<Rightarrow>
          if list_all (\<lambda>v. v \<in> set (map fst inputs)) (input_variables p)
          then Inr [''text'' \<mapsto> ''An answer.'']
          else Inl (ValueError ''Missing some input keys'')
      | ConversationalRetrievalChain client \<Rightarrow> Inr [''answer'' \<mapsto> ''An answer.''])"

definition example_backend :: env where
  "example_backend =
     \<lparr>app_config = AppConfig_src (Some ''tvly-key''),
      now_isoformat = ''2025-01-01T00:00:00'',
      uuid4 = ''0a1b'',
      new_Chroma_memory = None,
      chroma_add_documents = (\<lambda>d. None),
      model_config = \<lparr>OPENAI_API_KEY = None, ANTHROPIC_API_KEY = None,
                       GROQ_API_KEY = Some ''gsk-key''\<rparr>,
      new_HuggingFaceEmbeddings = None,
      requests_get_ollama_tags = Inr 200,
      new_OllamaEmbeddings = None,
      new_ChatOpenAI = None,
      new_ChatAnthropic = None,
      new_ChatGroq = None,
      new_ChatOllama_tested = None,
      new_LLMChain = (\<lambda>client p. None),
      new_ConversationalRetrievalChain = (\<lambda>client. None),
      new_TavilySearch = None,
      chain_invoke = example_chain_invoke,
      llm_invoke = (\<lambda>client p. Inr ''An answer.''),
      chroma_similarity_search = (\<lambda>q k. Inr example_documents),
      search_tool_invoke = (\<lambda>q. Inl (ConnectionError ''search backend unreachable''))\<rparr>"

text \<open>The same backend with neither embedding provider reachable.\<close>

definition offline_backend :: env where
  "offline_backend = example_backend
     \<lparr>new_HuggingFaceEmbeddings := Some (BackendError ''model not found''),
      requests_get_ollama_tags := Inl (ConnectionError ''connection refused'')\<rparr>"

text \<open>
  The engine \<^verbatim>\<open>LLM.__init__\<close> builds with its default arguments on that backend
  (Groq, RAG mode, transient memory, no session) over an empty session directory.
\<close>

definition example_engine :: LLM where
  "example_engine =
     \<lparr>vector_store = \<lparr>embedding_provider = EMB_HUGGINGFACE, embeddings = HuggingFaceEmbeddings\<rparr>,
      model_provider = GROQ,
      answer_mode = RAG,
      engine_memory_mode = TRANSIENT,
      session_id = None,
      privacy_filter = \<lparr>enable_filter = True\<rparr>,
      memory_manager = new_manager TRANSIENT,
      memory = [],
      llm = ChatGroq,
      chain = ConversationalRetrievalChain ChatGroq,
      has_search_tool = False\<rparr>"

text \<open>The engine after a switch to web search and after a switch to the default mode.\<close>

definition web_engine :: LLM where
  "web_engine = snd (change_answer_mode example_backend example_engine (Str ''web_search''))"

definition default_engine :: LLM where
  "default_engine = snd (change_answer_mode example_backend example_engine (Str ''default''))"

text \<open>The example backend with Hugging Face and Ollama both failing to start.\<close>

definition degraded_backend :: env where
  "degraded_backend = example_backend
     \<lparr>new_HuggingFaceEmbeddings := Some (BackendError ''model not found''),
      new_ChatOllama_tested := Some (ConnectionError ''connection refused'')\<rparr>"



section \<open>Properties of the memory manager\<close>

lemma new_manager_constructed:
  "new_MemoryManager example_env m (Some HuggingFaceEmbeddings) Map.empty [] = new_manager m"
  by (cases m)
     (simp_all add: new_MemoryManager_def init_persistent_memory_def new_manager_def
        example_env_def Let_def)

lemma transient_add_to_persistent [simp]:
  "transient_memory (add_to_persistent_memory env mm r c sid) = transient_memory mm"
  by (simp add: add_to_persistent_memory_def update_session_metadata_def Let_def
      split: option.splits session_file.splits)

lemma most_recent_length: "length (most_recent n xs) \<le> n"
  by (simp add: most_recent_def)

lemma most_recent_snoc: "most_recent n (most_recent n xs @ [m]) = most_recent n (xs @ [m])"
  by (cases "length xs \<le> n") (auto simp: most_recent_def Suc_diff_le)

lemma trim_is_most_recent:
  "0 < MEMORY_MESSAGE_LIMIT (app_config env) \<Longrightarrow>
   transient_memory (trim_transient_memory env mm) =
     most_recent (nat (MEMORY_MESSAGE_LIMIT (app_config env))) (transient_memory mm)"
  by (auto simp: trim_transient_memory_def Let_def slice_from_def most_recent_def nat_diff_distrib'
       intro!: arg_cong2[where f=drop])

text \<open>At the limit 0 nothing is trimmed: \<^verbatim>\<open>messages[-0:]\<close> is the whole list.\<close>

lemma trim_at_limit_zero:
  "MEMORY_MESSAGE_LIMIT (app_config env) = 0 \<Longrightarrow> trim_transient_memory env mm = mm"
  by (simp add: trim_transient_memory_def Let_def slice_from_def)

lemma transient_add_user:
  "transient_memory (add_user_message env mm t sid) =
   transient_memory (trim_transient_memory env (mm\<lparr>transient_memory := transient_memory mm @ [HumanMessage t]\<rparr>))"
  by (simp add: add_user_message_def Let_def split: option.splits)

lemma transient_add_ai:
  "transient_memory (add_ai_message env mm t sid) =
   transient_memory (trim_transient_memory env (mm\<lparr>transient_memory := transient_memory mm @ [AIMessage t]\<rparr>))"
  by (simp add: add_ai_message_def Let_def split: option.splits)

lemma transient_do_append:
  "0 < MEMORY_MESSAGE_LIMIT (app_config env) \<Longrightarrow>
   transient_memory (do_append env mm c) =
     most_recent (nat (MEMORY_MESSAGE_LIMIT (app_config env))) (transient_memory mm @ [append_message c])"
  by (cases c) (simp_all add: transient_add_user transient_add_ai trim_is_most_recent)

lemma transient_do_appends:
  assumes "0 < MEMORY_MESSAGE_LIMIT (app_config env)"
    and "int (length (transient_memory mm)) \<le> MEMORY_MESSAGE_LIMIT (app_config env)"
  shows "transient_memory (do_appends env mm calls) =
     most_recent (nat (MEMORY_MESSAGE_LIMIT (app_config env)))
       (transient_memory mm @ map append_message calls)"
proof (induction calls rule: rev_induct)
  case Nil
  from assms(2) show ?case by (simp add: do_appends_def most_recent_def)
next
  case (snoc c cs)
  have "do_appends env mm (cs @ [c]) = do_append env (do_appends env mm cs) c"
    by (simp add: do_appends_def)
  then show ?case
    using snoc assms(1) by (simp add: transient_do_append most_recent_snoc)
qed

text \<open>
  Claim C1. With a positive limit \<open>N\<close> and a buffer that starts within it, after each
  append of a run of \<^verbatim>\<open>add_user_message\<close>/\<^verbatim>\<open>add_ai_message\<close> calls the transient
  buffer has at most \<open>N\<close> messages and holds exactly the most recent \<open>N\<close> (or fewer) of
  the messages appended so far, in append order: the oldest are the ones evicted. The
  source's limit is 10.
\<close>

theorem buffer_bound:
  assumes "0 < MEMORY_MESSAGE_LIMIT (app_config env)"
    and "int (length (transient_memory mm)) \<le> MEMORY_MESSAGE_LIMIT (app_config env)"
  shows "\<forall>k \<le> length calls.
     int (length (transient_memory (do_appends env mm (take k calls))))
       \<le> MEMORY_MESSAGE_LIMIT (app_config env) \<and>
     transient_memory (do_appends env mm (take k calls)) =
       most_recent (nat (MEMORY_MESSAGE_LIMIT (app_config env)))
         (transient_memory mm @ map append_message (take k calls))"
proof (intro allI impI)
  fix k assume "k \<le> length calls"
  let ?n = "MEMORY_MESSAGE_LIMIT (app_config env)"
  have eq: "transient_memory (do_appends env mm (take k calls)) =
      most_recent (nat ?n) (transient_memory mm @ map append_message (take k calls))"
    using assms by (rule transient_do_appends)
  have "length (most_recent (nat ?n) (transient_memory mm @ map append_message (take k calls))) \<le> nat ?n"
    by (rule most_recent_length)
  with assms(1) eq show "int (length (transient_memory (do_appends env mm (take k calls)))) \<le> ?n \<and>
     transient_memory (do_appends env mm (take k calls)) =
       most_recent (nat ?n) (transient_memory mm @ map append_message (take k calls))"
    by simp
qed

theorem buffer_bound_witness:
  "0 < MEMORY_MESSAGE_LIMIT (app_config example_env) \<and>
   int (length (transient_memory (new_manager TRANSIENT))) \<le> MEMORY_MESSAGE_LIMIT (app_config example_env) \<and>
   transient_memory (do_appends example_env (new_manager TRANSIENT)
      [AddUser ''q1'' None, AddAi ''a1'' None, AddUser ''q2'' None, AddAi ''a2'' None,
       AddUser ''q3'' None, AddAi ''a3'' None, AddUser ''q4'' None, AddAi ''a4'' None,
       AddUser ''q5'' None, AddAi ''a5'' None, AddUser ''q6'' None, AddAi ''a6'' None]) =
     [HumanMessage ''q2'', AIMessage ''a2'', HumanMessage ''q3'', AIMessage ''a3'',
      HumanMessage ''q4'', AIMessage ''a4'', HumanMessage ''q5'', AIMessage ''a5'',
      HumanMessage ''q6'', AIMessage ''a6'']"
proof -
  have h1: "0 < MEMORY_MESSAGE_LIMIT (app_config example_env)"
    by (simp add: example_env_def AppConfig_src_def)
  have h2: "int (length (transient_memory (new_manager TRANSIENT))) \<le> MEMORY_MESSAGE_LIMIT (app_config example_env)"
    by (simp add: example_env_def AppConfig_src_def new_manager_def)
  let ?calls = "[AddUser ''q1'' None, AddAi ''a1'' None, AddUser ''q2'' None, AddAi ''a2'' None,
       AddUser ''q3'' None, AddAi ''a3'' None, AddUser ''q4'' None, AddAi ''a4'' None,
       AddUser ''q5'' None, AddAi ''a5'' None, AddUser ''q6'' None, AddAi ''a6'' None]"
  from buffer_bound [OF h1 h2, of ?calls]
  have "transient_memory (do_appends example_env (new_manager TRANSIENT) (take (length ?calls) ?calls)) =
       most_recent (nat (MEMORY_MESSAGE_LIMIT (app_config example_env)))
         (transient_memory (new_manager TRANSIENT) @ map append_message (take (length ?calls) ?calls))"
    by blast
  then show ?thesis using h1 h2
    by (simp add: example_env_def AppConfig_src_def new_manager_def most_recent_def)
qed

text \<open>
  Claim C10. In PERSISTENT mode, \<^verbatim>\<open>load_session\<close> with the id of a session that has no
  file returns \<^verbatim>\<open>False\<close>, and the manager it leaves is the one before the call with
  the transient buffer emptied: the buffer is cleared before the existence check.
\<close>

theorem failed_load_clears_buffer:
  assumes "memory_mode mm = PERSISTENT" and "session_files mm sid = None"
  shows "mm_load_session env mm sid = (False, mm\<lparr>transient_memory := []\<rparr>)"
  using assms by (simp add: mm_load_session_def Let_def)

theorem failed_load_clears_buffer_witness:
  "memory_mode ((new_manager PERSISTENT)\<lparr>transient_memory := [HumanMessage ''hello'']\<rparr>) = PERSISTENT \<and>
   session_files ((new_manager PERSISTENT)\<lparr>transient_memory := [HumanMessage ''hello'']\<rparr>) ''nope'' = None \<and>
   fst (mm_load_session example_env ((new_manager PERSISTENT)\<lparr>transient_memory := [HumanMessage ''hello'']\<rparr>) ''nope'') = False \<and>
   transient_memory (snd (mm_load_session example_env
      ((new_manager PERSISTENT)\<lparr>transient_memory := [HumanMessage ''hello'']\<rparr>) ''nope'')) = [] \<and>
   transient_memory ((new_manager PERSISTENT)\<lparr>transient_memory := [HumanMessage ''hello'']\<rparr>) \<noteq> []"
proof -
  let ?mm = "(new_manager PERSISTENT)\<lparr>transient_memory := [HumanMessage ''hello'']\<rparr>"
  have h1: "memory_mode ?mm = PERSISTENT" by (simp add: new_manager_def)
  have h2: "session_files ?mm ''nope'' = None" by (simp add: new_manager_def)
  from failed_load_clears_buffer [OF h1 h2, of example_env] h1 h2
  show ?thesis by simp
qed





section \<open>Properties of the privacy filter\<close>

lemma findall_scan_empty:
  "(findall_scan r 0 prev s = []) = (\<not> search_from r prev s)"
  by (induction s arbitrary: prev) (auto simp: Let_def split: option.splits)

lemma re_findall_empty: "(re_findall r s = []) = (\<not> re_search r s)"
  by (simp add: re_findall_def re_search_def findall_scan_empty)

lemma sub_scan_no_match: "\<not> search_from r prev s \<Longrightarrow> sub_scan r repl 0 prev s = s"
  by (induction s arbitrary: prev) (auto split: option.splits)

lemma filter_step_simp:
  "filter_step cp (t, h) =
     (if re_search (snd cp) t then (re_sub (snd cp) (marker (fst cp)) t, True) else (t, h))"
  by (simp add: filter_step_def re_findall_empty)

lemma fold_filter_step_flag: "snd (fold filter_step ps (t, True)) = True"
  by (induction ps arbitrary: t) (simp_all add: filter_step_simp)

lemma fold_filter_step_found:
  "\<exists>cp \<in> set ps. re_search (snd cp) t \<Longrightarrow> snd (fold filter_step ps (t, h)) = True"
proof (induction ps arbitrary: h)
  case Nil
  then show ?case by simp
next
  case (Cons cp ps)
  show ?case
  proof (cases "re_search (snd cp) t")
    case True
    then show ?thesis by (simp add: filter_step_simp fold_filter_step_flag)
  next
    case False
    with Cons.prems have "\<exists>cp \<in> set ps. re_search (snd cp) t" by auto
    with Cons.IH False show ?thesis by (simp add: filter_step_simp)
  qed
qed

lemma fold_filter_step_clean:
  "\<forall>cp \<in> set ps. \<not> re_search (snd cp) t \<Longrightarrow> fold filter_step ps (t, h) = (t, h)"
  by (induction ps) (simp_all add: filter_step_simp)

text \<open>
  With the filter enabled, a text in which the pattern of any category matches is
  reported as sensitive: the flag is set by the first category that matches the text as
  it then stands, and no category before it has changed the text.
\<close>

theorem filter_flags_every_match:
  "enable_filter pf \<Longrightarrow> (c, r) \<in> set patterns \<Longrightarrow> re_search r t \<Longrightarrow>
   snd (filter_text pf t) = True"
proof -
  assume e: "enable_filter pf" and m: "(c, r) \<in> set patterns" and s: "re_search r t"
  from m s have "\<exists>cp \<in> set patterns. re_search (snd cp) t" by force
  then have "snd (fold filter_step patterns (t, False)) = True" by (rule fold_filter_step_found)
  with e show ?thesis by (simp add: filter_text_def)
qed

text \<open>
  Claim C2. The filter at the text of 32 digits followed by \<open>x\<close>. The credit card pattern
  matches the input (its first 16 digits), the flag is set and that match is replaced,
  but the 16 digits after it stay in the output and the credit card pattern matches
  there again: its first branch has no closing \<^verbatim>\<open>\b\<close>, so the first match ends inside
  the run of digits, and the \<^verbatim>\<open>]\<close> of the marker then gives the rest the word
  boundary it lacked. The claim that the output holds no match of the category fails at
  this input.
\<close>

theorem credit_card_digits_survive:
  "filter_text \<lparr>enable_filter = True\<rparr> ''12345678123456781234567812345678x''
     = (''[CREDIT CARD REDACTED]1234567812345678x'', True)
   \<and> re_search credit_card_rx ''12345678123456781234567812345678x''
   \<and> re_search credit_card_rx ''[CREDIT CARD REDACTED]1234567812345678x''"
  by code_simp

theorem filter_flags_every_match_witness:
  "enable_filter \<lparr>enable_filter = True\<rparr> \<and> (email, email_rx) \<in> set patterns
   \<and> re_search email_rx ''user@example.com''
   \<and> snd (filter_text \<lparr>enable_filter = True\<rparr> ''user@example.com'') = True"
proof -
  have e: "enable_filter \<lparr>enable_filter = True\<rparr>" by simp
  have m: "(email, email_rx) \<in> set patterns" by (simp add: patterns_def)
  have s: "re_search email_rx ''user@example.com''" by code_simp
  from filter_flags_every_match [OF e m s] e m s show ?thesis by blast
qed

section \<open>Properties of the engine\<close>

subsection \<open>Source citations\<close>









subsection \<open>The example engine is the one the constructor builds\<close>

lemma example_engine_constructed:
  "new_LLM example_backend (new_VectorStore example_backend EMB_HUGGINGFACE) GROQ RAG TRANSIENT
     Map.empty [] = Inr example_engine"
  by (simp add: new_LLM_def new_VectorStore_def initialize_embeddings_def initialize_llm_def
      construct_def initialize_chain_def initialize_rag_chain_def new_MemoryManager_def
      example_backend_def example_engine_def new_manager_def AppConfig_src_def Let_def)

subsection \<open>Mode switches\<close>

lemma initialize_default_chain_fail:
  "initialize_default_chain env s = (Some e, s1) \<Longrightarrow> s1 = s"
  by (auto simp: initialize_default_chain_def split: option.splits)

lemma initialize_rag_chain_fail:
  "initialize_rag_chain env s = (Some e, s1) \<Longrightarrow> s1 = s"
  by (auto simp: initialize_rag_chain_def split: option.splits)

lemma initialize_web_search_chain_fail:
  "initialize_web_search_chain env s = (Some e, s1) \<Longrightarrow>
   \<exists>b. s1 = s\<lparr>has_search_tool := b\<rparr>"
proof -
  assume a: "initialize_web_search_chain env s = (Some e, s1)"
  have 0: "s = s\<lparr>has_search_tool := has_search_tool s\<rparr>" by simp
  from a consider "initialize_default_chain env s = (Some e, s1)"
    | "initialize_default_chain env (s\<lparr>has_search_tool := True\<rparr>) = (Some e, s1)"
    by (auto simp: initialize_web_search_chain_def Let_def split: if_splits option.splits)
  then show ?thesis
  proof cases
    case 1
    then have "s1 = s" by (rule initialize_default_chain_fail)
    with 0 show ?thesis by metis
  next
    case 2
    then have "s1 = s\<lparr>has_search_tool := True\<rparr>" by (rule initialize_default_chain_fail)
    then show ?thesis by blast
  qed
qed

lemma initialize_chain_fail:
  "initialize_chain env s = (Some e, s1) \<Longrightarrow> \<exists>b. s1 = s\<lparr>has_search_tool := b\<rparr>"
proof (cases "answer_mode s")
  case DEFAULT
  assume "initialize_chain env s = (Some e, s1)"
  with DEFAULT have "s1 = s" by (simp add: initialize_chain_def initialize_default_chain_fail)
  then have "s1 = s\<lparr>has_search_tool := has_search_tool s\<rparr>" by simp
  then show ?thesis by blast
next
  case RAG
  assume "initialize_chain env s = (Some e, s1)"
  with RAG have "s1 = s" by (simp add: initialize_chain_def initialize_rag_chain_fail)
  then have "s1 = s\<lparr>has_search_tool := has_search_tool s\<rparr>" by simp
  then show ?thesis by blast
next
  case WEB_SEARCH
  assume "initialize_chain env s = (Some e, s1)"
  with WEB_SEARCH show ?thesis
    by (simp add: initialize_chain_def initialize_web_search_chain_fail)
qed

lemma initialize_llm_state:
  "initialize_llm env s = (r, s1) \<Longrightarrow>
   s1 = s \<or> (model_provider s = OLLAMA \<and> s1 = s\<lparr>model_provider := GROQ\<rparr>)"
  by (cases "model_provider s")
     (auto simp: initialize_llm_def split: option.splits if_splits)

lemma initialize_llm_client:
  "initialize_llm env s = (Inr client, s1) \<Longrightarrow> provider_of_client client = model_provider s1"
  by (cases "model_provider s")
     (auto simp: initialize_llm_def construct_def split: option.splits if_splits)

lemma change_answer_mode_fail:
  assumes "fst (change_answer_mode env s mode) = False"
  shows "(to_AnswerMode mode = None \<and> snd (change_answer_mode env s mode) = s) \<or>
     (\<exists>m b. to_AnswerMode mode = Some m \<and>
        snd (change_answer_mode env s mode) = s\<lparr>answer_mode := m, has_search_tool := b\<rparr>)"
proof (cases "to_AnswerMode mode")
  case None
  then show ?thesis by (simp add: change_answer_mode_def)
next
  case (Some m)
  obtain r s1 where i: "initialize_chain env (s\<lparr>answer_mode := m\<rparr>) = (r, s1)"
    by (cases "initialize_chain env (s\<lparr>answer_mode := m\<rparr>)")
  with assms Some obtain e where r: "r = Some e"
    by (cases r) (simp_all add: change_answer_mode_def)
  from i r obtain b where "s1 = s\<lparr>answer_mode := m, has_search_tool := b\<rparr>"
    using initialize_chain_fail by blast
  moreover from Some i r have "snd (change_answer_mode env s mode) = s1"
    by (simp add: change_answer_mode_def)
  ultimately show ?thesis using Some by blast
qed

lemma change_model_provider_fail:
  assumes "fst (change_model_provider env s provider) = False"
  shows "(to_ModelProvider provider = None \<and> snd (change_model_provider env s provider) = s) \<or>
     (\<exists>p q c b. to_ModelProvider provider = Some p \<and> (q = p \<or> q = GROQ) \<and>
        (c = llm s \<or> provider_of_client c = q) \<and>
        snd (change_model_provider env s provider) =
          s\<lparr>model_provider := q, llm := c, has_search_tool := b\<rparr>)"
proof (cases "to_ModelProvider provider")
  case None
  then show ?thesis by (simp add: change_model_provider_def)
next
  case (Some p)
  let ?s1 = "s\<lparr>model_provider := p\<rparr>"
  obtain r s2 where i: "initialize_llm env ?s1 = (r, s2)"
    by (cases "initialize_llm env ?s1")
  from initialize_llm_state [OF i] obtain q where q: "q = p \<or> q = GROQ"
    and s2: "s2 = s\<lparr>model_provider := q\<rparr>" by auto
  show ?thesis
  proof (cases r)
    case (Inl e)
    have "s2 = s\<lparr>model_provider := q, llm := llm s, has_search_tool := has_search_tool s\<rparr>"
      using s2 by simp
    moreover from Some i Inl have "snd (change_model_provider env s provider) = s2"
      by (simp add: change_model_provider_def)
    ultimately show ?thesis using Some q by blast
  next
    case (Inr client)
    from i Inr have pc: "provider_of_client client = model_provider s2"
      using initialize_llm_client by blast
    obtain r3 s3 where c: "initialize_chain env (s2\<lparr>llm := client\<rparr>) = (r3, s3)"
      by (cases "initialize_chain env (s2\<lparr>llm := client\<rparr>)")
    with assms Some i Inr obtain e where r3: "r3 = Some e"
      by (cases r3) (simp_all add: change_model_provider_def)
    from c r3 obtain b where "s3 = s2\<lparr>llm := client, has_search_tool := b\<rparr>"
      using initialize_chain_fail by blast
    with s2 have "s3 = s\<lparr>model_provider := q, llm := client, has_search_tool := b\<rparr>" by simp
    moreover from Some i Inr c r3 have "snd (change_model_provider env s provider) = s3"
      by (simp add: change_model_provider_def)
    moreover from pc s2 have "provider_of_client client = q" by simp
    ultimately show ?thesis using Some q by blast
  qed
qed

text \<open>
  Claim C5 fails as stated: with no OpenAI key, \<^verbatim>\<open>change_model_provider("openai")\<close>
  on the Groq engine returns \<^verbatim>\<open>False\<close> and leaves the provider field at OPENAI while
  the client is still the Groq one.
\<close>

theorem mode_switch_counterexample:
  "model_provider example_engine = GROQ \<and>
   fst (change_model_provider example_backend example_engine (Str ''openai'')) = False \<and>
   model_provider (snd (change_model_provider example_backend example_engine (Str ''openai'')))
     = OPENAI \<and>
   llm (snd (change_model_provider example_backend example_engine (Str ''openai''))) = ChatGroq"
  by (simp add: change_model_provider_def to_ModelProvider_def initialize_llm_def
      example_engine_def example_backend_def)

text \<open>
  Claim C5, amended. A failed \<^verbatim>\<open>change_answer_mode\<close> or \<^verbatim>\<open>change_model_provider\<close>
  was either given a value that names no member, and then the engine is unchanged, or
  failed while re-initialising, and then the engine differs from the one before the call
  at most in the answer mode (already the requested one), the provider (the requested
  one, or Groq after the Ollama fallback), the client (the old one, or the new
  provider's) and the search tool; the chain, the memory and the filter are as before.
  \<^verbatim>\<open>change_memory_mode\<close> and \<^verbatim>\<open>toggle_privacy_filter\<close> never report failure.
\<close>

theorem mode_switch_failure:
  "(fst (change_answer_mode env s mode) = False \<longrightarrow>
      (to_AnswerMode mode = None \<and> snd (change_answer_mode env s mode) = s) \<or>
      (\<exists>m b. to_AnswerMode mode = Some m \<and>
         snd (change_answer_mode env s mode) = s\<lparr>answer_mode := m, has_search_tool := b\<rparr>))
   \<and> (fst (change_model_provider env s provider) = False \<longrightarrow>
      (to_ModelProvider provider = None \<and> snd (change_model_provider env s provider) = s) \<or>
      (\<exists>p q c b. to_ModelProvider provider = Some p \<and> (q = p \<or> q = GROQ) \<and>
         (c = llm s \<or> provider_of_client c = q) \<and>
         snd (change_model_provider env s provider) =
           s\<lparr>model_provider := q, llm := c, has_search_tool := b\<rparr>))
   \<and> fst (change_memory_mode env s mm) = True
   \<and> toggle_privacy_filter s on =
       (True, s\<lparr>privacy_filter := \<lparr>enable_filter = on\<rparr>\<rparr>)"
proof (intro conjI impI)
  assume "fst (change_answer_mode env s mode) = False"
  then show "(to_AnswerMode mode = None \<and> snd (change_answer_mode env s mode) = s) \<or>
      (\<exists>m b. to_AnswerMode mode = Some m \<and>
         snd (change_answer_mode env s mode) = s\<lparr>answer_mode := m, has_search_tool := b\<rparr>)"
    by (rule change_answer_mode_fail)
next
  assume "fst (change_model_provider env s provider) = False"
  then show "(to_ModelProvider provider = None \<and> snd (change_model_provider env s provider) = s) \<or>
      (\<exists>p q c b. to_ModelProvider provider = Some p \<and> (q = p \<or> q = GROQ) \<and>
         (c = llm s \<or> provider_of_client c = q) \<and>
         snd (change_model_provider env s provider) =
           s\<lparr>model_provider := q, llm := c, has_search_tool := b\<rparr>)"
    by (rule change_model_provider_fail)
next
  obtain ok mm1 where r: "mm_change_memory_mode env (memory_manager s) mm = (ok, mm1)"
    by (cases "mm_change_memory_mode env (memory_manager s) mm")
  then have "ok = True" by (auto simp: mm_change_memory_mode_def Let_def split: if_splits)
  with r show "fst (change_memory_mode env s mm) = True"
    by (simp add: change_memory_mode_def Let_def)
next
  show "toggle_privacy_filter s on = (True, s\<lparr>privacy_filter := \<lparr>enable_filter = on\<rparr>\<rparr>)"
    by (cases "privacy_filter s") (simp add: toggle_privacy_filter_def enable_def disable_def)
qed

theorem mode_switch_failure_witness:
  "fst (change_answer_mode example_backend example_engine (Str ''hybrid'')) = False
   \<and> snd (change_answer_mode example_backend example_engine (Str ''hybrid'')) = example_engine
   \<and> fst (change_model_provider example_backend example_engine (Str ''openai'')) = False
   \<and> chain (snd (change_model_provider example_backend example_engine (Str ''openai'')))
       = chain example_engine
   \<and> answer_mode (snd (change_model_provider example_backend example_engine (Str ''openai'')))
       = answer_mode example_engine"
proof -
  have n: "to_AnswerMode (Str ''hybrid'') = None"
    by (simp add: to_AnswerMode_def)
  have f1: "fst (change_answer_mode example_backend example_engine (Str ''hybrid'')) = False"
    by (simp add: change_answer_mode_def n)
  have f2: "fst (change_model_provider example_backend example_engine (Str ''openai'')) = False"
    by (simp add: change_model_provider_def to_ModelProvider_def initialize_llm_def
        example_engine_def example_backend_def)
  note t = mode_switch_failure [of example_backend example_engine "Str ''hybrid''" "Str ''openai''"]
  from t f1 n have 1: "snd (change_answer_mode example_backend example_engine (Str ''hybrid'')) = example_engine"
    by simp
  from t f2 have "\<exists>q c b. snd (change_model_provider example_backend example_engine (Str ''openai'')) =
           example_engine\<lparr>model_provider := q, llm := c, has_search_tool := b\<rparr>
       \<or> snd (change_model_provider example_backend example_engine (Str ''openai'')) = example_engine"
    by blast
  then have 2: "chain (snd (change_model_provider example_backend example_engine (Str ''openai'')))
       = chain example_engine \<and> answer_mode (snd (change_model_provider example_backend example_engine (Str ''openai'')))
       = answer_mode example_engine"
    by auto
  from f1 f2 1 2 show ?thesis by blast
qed

lemma transient_init_persistent:
  "transient_memory (init_persistent_memory env mm) = transient_memory mm"
  by (simp add: init_persistent_memory_def split: option.splits)

lemma mm_change_memory_mode_transient:
  "transient_memory (snd (mm_change_memory_mode env mm m)) = transient_memory mm"
  by (simp add: mm_change_memory_mode_def Let_def transient_init_persistent)

lemma mm_change_memory_mode_succeeds: "fst (mm_change_memory_mode env mm m) = True"
  by (simp add: mm_change_memory_mode_def Let_def)

text \<open>
  Claim C6 fails as stated: switching the engine from TRANSIENT to PERSISTENT with no
  session active creates a session.
\<close>

theorem memory_mode_switch_counterexample:
  "engine_memory_mode example_engine = TRANSIENT \<and>
   memory_mode (memory_manager example_engine) = TRANSIENT \<and>
   session_id example_engine = None \<and>
   fst (change_memory_mode example_backend example_engine PERSISTENT) = True \<and>
   session_id (snd (change_memory_mode example_backend example_engine PERSISTENT)) = Some ''0a1b''"
  by (simp add: change_memory_mode_def mm_change_memory_mode_def init_persistent_memory_def
      example_engine_def example_backend_def new_manager_def create_session_def Let_def)

text \<open>
  Claim C6, amended. A switch of the memory mode succeeds and leaves the transient
  buffer as it was; a switch to PERSISTENT with no session active sets the session id to
  a newly created one, and every other switch leaves the session id as it was.
\<close>

theorem memory_mode_switch:
  "fst (change_memory_mode env s m) = True
   \<and> transient_memory (memory_manager (snd (change_memory_mode env s m)))
       = transient_memory (memory_manager s)
   \<and> (m = PERSISTENT \<and> \<not> truthy (session_id s) \<longrightarrow>
        session_id (snd (change_memory_mode env s m)) = Some (uuid4 env))
   \<and> (m = TRANSIENT \<or> truthy (session_id s) \<longrightarrow>
        session_id (snd (change_memory_mode env s m)) = session_id s)"
proof -
  obtain ok mm where r: "mm_change_memory_mode env (memory_manager s) m = (ok, mm)"
    by (cases "mm_change_memory_mode env (memory_manager s) m")
  from r mm_change_memory_mode_succeeds [of env "memory_manager s" m] have ok: "ok = True"
    by simp
  from r mm_change_memory_mode_transient [of env "memory_manager s" m]
  have tm: "transient_memory mm = transient_memory (memory_manager s)" by simp
  show ?thesis
    using r ok tm by (cases m) (simp_all add: change_memory_mode_def Let_def create_session_def)
qed

theorem memory_mode_switch_witness:
  "\<not> truthy (session_id example_engine)
   \<and> session_id (snd (change_memory_mode example_backend example_engine PERSISTENT))
       = Some (uuid4 example_backend)
   \<and> truthy (session_id (example_engine\<lparr>session_id := Some ''5e55''\<rparr>))
   \<and> session_id (snd (change_memory_mode example_backend
        (example_engine\<lparr>session_id := Some ''5e55''\<rparr>) PERSISTENT)) = Some ''5e55''"
proof -
  have a: "\<not> truthy (session_id example_engine)" by (simp add: example_engine_def)
  have b: "truthy (session_id (example_engine\<lparr>session_id := Some ''5e55''\<rparr>))" by simp
  from memory_mode_switch [of example_backend example_engine PERSISTENT] a
  have 1: "session_id (snd (change_memory_mode example_backend example_engine PERSISTENT))
       = Some (uuid4 example_backend)" by blast
  from memory_mode_switch [of example_backend "example_engine\<lparr>session_id := Some ''5e55''\<rparr>" PERSISTENT] b
  have 2: "session_id (snd (change_memory_mode example_backend
        (example_engine\<lparr>session_id := Some ''5e55''\<rparr>) PERSISTENT)) = Some ''5e55''" by simp
  from a b 1 2 show ?thesis by blast
qed

subsection \<open>Provider fallbacks\<close>

lemma initialize_ollama_embeddings_cases:
  "initialize_ollama_embeddings env vs = OllamaEmbeddings \<or>
   initialize_ollama_embeddings env vs = FallbackEmbeddings"
  by (simp add: initialize_ollama_embeddings_def get_fallback_embeddings_def
      split: sum.splits option.splits)

text \<open>
  Claim C9 fails as stated: when Hugging Face and Ollama both fail, the client is the
  hash-based fallback while the provider field says OLLAMA.
\<close>

theorem recorded_provider_counterexample:
  "new_VectorStore offline_backend EMB_HUGGINGFACE
     = \<lparr>embedding_provider = EMB_OLLAMA, embeddings = FallbackEmbeddings\<rparr>
   \<and> provider_of_embeddings (embeddings (new_VectorStore offline_backend EMB_HUGGINGFACE))
       \<noteq> Some (embedding_provider (new_VectorStore offline_backend EMB_HUGGINGFACE))"
  by (simp add: new_VectorStore_def initialize_embeddings_def initialize_ollama_embeddings_def
      get_fallback_embeddings_def offline_backend_def example_backend_def Let_def)

text \<open>
  Claim C9, amended. A client that \<^verbatim>\<open>_initialize_llm\<close> returns belongs to the
  provider the engine records after the call (Groq after the Ollama fallback). The
  embedding client that \<^verbatim>\<open>_initialize_embeddings\<close> returns belongs to the recorded
  provider, except for the last-resort fallback, under which the record says OLLAMA.
\<close>

theorem recorded_provider:
  "(initialize_llm env s = (Inr client, s1) \<longrightarrow> provider_of_client client = model_provider s1)
   \<and> (initialize_embeddings env vs = (emb, vs1) \<longrightarrow>
        provider_of_embeddings emb = Some (embedding_provider vs1) \<or>
        (emb = FallbackEmbeddings \<and> embedding_provider vs1 = EMB_OLLAMA))"
proof (intro conjI impI)
  assume "initialize_llm env s = (Inr client, s1)"
  then show "provider_of_client client = model_provider s1" by (rule initialize_llm_client)
next
  assume a: "initialize_embeddings env vs = (emb, vs1)"
  show "provider_of_embeddings emb = Some (embedding_provider vs1) \<or>
        (emb = FallbackEmbeddings \<and> embedding_provider vs1 = EMB_OLLAMA)"
  proof (cases "embedding_provider vs")
    case EMB_HUGGINGFACE
    show ?thesis
    proof (cases "new_HuggingFaceEmbeddings env")
      case None
      with a EMB_HUGGINGFACE show ?thesis by (auto simp: initialize_embeddings_def)
    next
      case (Some e)
      with a EMB_HUGGINGFACE
      have "emb = initialize_ollama_embeddings env (vs\<lparr>embedding_provider := EMB_OLLAMA\<rparr>)"
        and "embedding_provider vs1 = EMB_OLLAMA"
        by (auto simp: initialize_embeddings_def Let_def)
      then show ?thesis
        using initialize_ollama_embeddings_cases [of env "vs\<lparr>embedding_provider := EMB_OLLAMA\<rparr>"]
        by auto
    qed
  next
    case EMB_OLLAMA
    with a have "emb = initialize_ollama_embeddings env vs" and "embedding_provider vs1 = EMB_OLLAMA"
      by (auto simp: initialize_embeddings_def)
    then show ?thesis using initialize_ollama_embeddings_cases [of env vs] by auto
  qed
qed

theorem recorded_provider_witness:
  "initialize_llm degraded_backend (example_engine\<lparr>model_provider := OLLAMA\<rparr>)
    = (Inr ChatGroq, example_engine\<lparr>model_provider := GROQ\<rparr>)
   \<and> provider_of_client ChatGroq = model_provider (example_engine\<lparr>model_provider := GROQ\<rparr>)
   \<and> initialize_embeddings degraded_backend
        \<lparr>embedding_provider = EMB_HUGGINGFACE, embeddings = HuggingFaceEmbeddings\<rparr>
      = (OllamaEmbeddings, \<lparr>embedding_provider = EMB_OLLAMA, embeddings = HuggingFaceEmbeddings\<rparr>)
   \<and> provider_of_embeddings OllamaEmbeddings
      = Some (embedding_provider \<lparr>embedding_provider = EMB_OLLAMA, embeddings = HuggingFaceEmbeddings\<rparr>)"
proof -
  let ?vs = "\<lparr>embedding_provider = EMB_HUGGINGFACE, embeddings = HuggingFaceEmbeddings\<rparr>"
  let ?vs1 = "\<lparr>embedding_provider = EMB_OLLAMA, embeddings = HuggingFaceEmbeddings\<rparr>"
  have 1: "initialize_llm degraded_backend (example_engine\<lparr>model_provider := OLLAMA\<rparr>)
    = (Inr ChatGroq, example_engine\<lparr>model_provider := GROQ\<rparr>)"
    by (simp add: initialize_llm_def construct_def degraded_backend_def example_backend_def
        example_engine_def)
  have 2: "initialize_embeddings degraded_backend ?vs = (OllamaEmbeddings, ?vs1)"
    by (simp add: initialize_embeddings_def initialize_ollama_embeddings_def
        degraded_backend_def example_backend_def Let_def)
  from recorded_provider [of degraded_backend "example_engine\<lparr>model_provider := OLLAMA\<rparr>"
      ChatGroq "example_engine\<lparr>model_provider := GROQ\<rparr>" ?vs OllamaEmbeddings ?vs1] 1 2
  show ?thesis by simp
qed

subsection \<open>Answering\<close>

lemma last_most_recent: "0 < n \<Longrightarrow> last (most_recent n (xs @ [x])) = x"
  by (simp add: most_recent_def)

lemma last_add_ai_message:
  "0 < MEMORY_MESSAGE_LIMIT (app_config env) \<Longrightarrow>
   last (transient_memory (add_ai_message env mm msg sid)) = AIMessage msg"
  by (simp add: transient_add_ai trim_is_most_recent last_most_recent)

text \<open>
  Claim C4. \<^verbatim>\<open>get_response\<close> always returns a value, never an exception. When
  an exception leaves its \<^verbatim>\<open>try\<close> block (the filter, the memory append, the dispatch
  on the answer mode and the response assembly), the result is the error text built from
  the exception, paired with \<^verbatim>\<open>False\<close>, and that text is appended to the buffer as an
  assistant message (with a positive limit it is the last message of the buffer).
\<close>

theorem get_response_never_raises:
  "(\<exists>r s1. get_response env s query = (Inr r, s1))
   \<and> (\<forall>e s1. get_response_attempt env s query = (Inl e, s1) \<longrightarrow>
        get_response env s query =
          (Inr (error_message e, False),
           s1\<lparr>memory_manager :=
                add_ai_message env (memory_manager s1) (error_message e) (session_id s1)\<rparr>)
        \<and> (0 < MEMORY_MESSAGE_LIMIT (app_config env) \<longrightarrow>
             last (transient_memory (memory_manager (snd (get_response env s query))))
               = AIMessage (error_message e)))"
proof (intro conjI allI impI)
  obtain r s1 where a: "get_response_attempt env s query = (r, s1)"
    by (cases "get_response_attempt env s query")
  show "\<exists>r s1. get_response env s query = (Inr r, s1)"
    using a by (cases r) (auto simp: get_response_def Let_def)
next
  fix e s1 assume "get_response_attempt env s query = (Inl e, s1)"
  then show "get_response env s query =
          (Inr (error_message e, False),
           s1\<lparr>memory_manager :=
                add_ai_message env (memory_manager s1) (error_message e) (session_id s1)\<rparr>)"
    by (simp add: get_response_def Let_def)
next
  fix e s1 assume "get_response_attempt env s query = (Inl e, s1)"
    and "0 < MEMORY_MESSAGE_LIMIT (app_config env)"
  then show "last (transient_memory (memory_manager (snd (get_response env s query))))
               = AIMessage (error_message e)"
    by (simp add: get_response_def Let_def last_add_ai_message)
qed

lemma web_engine_eq:
  "web_engine = example_engine\<lparr>answer_mode := WEB_SEARCH,
      has_search_tool := True, chain := LLMChain ChatGroq WEB_SEARCH_PROMPT\<rparr>"
  by (simp add: web_engine_def change_answer_mode_def to_AnswerMode_def initialize_chain_def
      initialize_web_search_chain_def example_backend_def example_engine_def AppConfig_src_def
      Let_def)

lemma default_engine_eq:
  "default_engine = example_engine\<lparr>answer_mode := DEFAULT,
      chain := LLMChain ChatGroq DEFAULT_PROMPT\<rparr>"
  by (simp add: default_engine_def change_answer_mode_def to_AnswerMode_def initialize_chain_def
      initialize_default_chain_def example_backend_def example_engine_def)

lemma web_attempt_fails:
  "fst (get_response_attempt example_backend web_engine ''What is X?'')
     = Inl (ValueError ''Missing some input keys'')"
  by code_simp

text \<open>
  Claim C8. An engine switched to web search on a backend with a Tavily key holds the
  chain built on \<^verbatim>\<open>WEB_SEARCH_PROMPT\<close>, whose inputs are \<^verbatim>\<open>question\<close> and
  \<^verbatim>\<open>search_results\<close>. When the search raises, the handler calls
  \<^verbatim>\<open>_get_default_response\<close>, which invokes that same chain with the question alone.
  On a chain that checks its inputs the call raises, and \<^verbatim>\<open>get_response\<close> returns the
  error text, where the engine in DEFAULT mode returns the model's answer.
\<close>

theorem web_search_fallback_misses_default:
  "fst (get_response example_backend web_engine ''What is X?'')
     = Inr (''I encountered an error processing your request: Missing some input keys'', False)
   \<and> fst (get_response example_backend default_engine ''What is X?'')
     = Inr (''An answer.'', False)"
  by code_simp

theorem get_response_never_raises_witness:
  "fst (get_response_attempt example_backend web_engine ''What is X?'')
     = Inl (ValueError ''Missing some input keys'')
   \<and> 0 < MEMORY_MESSAGE_LIMIT (app_config example_backend)
   \<and> fst (get_response example_backend web_engine ''What is X?'')
     = Inr (error_message (ValueError ''Missing some input keys''), False)
   \<and> last (transient_memory (memory_manager
        (snd (get_response example_backend web_engine ''What is X?''))))
     = AIMessage (error_message (ValueError ''Missing some input keys''))"
proof -
  let ?a = "get_response_attempt example_backend web_engine ''What is X?''"
  let ?e = "ValueError ''Missing some input keys''"
  have a: "?a = (Inl ?e, snd ?a)"
    using web_attempt_fails by (metis prod.collapse)
  have n: "0 < MEMORY_MESSAGE_LIMIT (app_config example_backend)"
    by (simp add: example_backend_def AppConfig_src_def)
  from get_response_never_raises [of example_backend web_engine "''What is X?''"] a n
  have "get_response example_backend web_engine ''What is X?'' =
          (Inr (error_message ?e, False),
           (snd ?a)\<lparr>memory_manager :=
                add_ai_message example_backend (memory_manager (snd ?a)) (error_message ?e)
                  (session_id (snd ?a))\<rparr>)"
    and "last (transient_memory (memory_manager
        (snd (get_response example_backend web_engine ''What is X?'')))) = AIMessage (error_message ?e)"
    by blast+
  with web_attempt_fails n show ?thesis by simp
qed

text \<open>
  What the handler of \<^verbatim>\<open>_get_web_search_response\<close> does on any backend: the answer is
  the one \<^verbatim>\<open>_get_default_response\<close> gives on the engine as it is, that is, the chain
  the engine holds invoked with the question alone.
\<close>

theorem web_search_falls_back:
  "web_search_attempt env s query = Inl e \<Longrightarrow>
   get_web_search_response env s query = get_default_response env s query"
  by (simp add: get_web_search_response_def)

theorem web_search_falls_back_witness:
  "web_search_attempt example_backend default_engine ''What is X?''
     = Inl (AttributeError ''search_tool'')
   \<and> get_web_search_response example_backend default_engine ''What is X?''
     = get_default_response example_backend default_engine ''What is X?''"
proof -
  have a: "web_search_attempt example_backend default_engine ''What is X?''
     = Inl (AttributeError ''search_tool'')"
    by (simp add: web_search_attempt_def default_engine_eq example_engine_def)
  from web_search_falls_back [OF a] a show ?thesis by simp
qed

end
